theory Spec2Isabelle
  imports Main "HOL-Library.Word" "HOL-Library.List_Lexorder" "HOL-Library.Char_ord"
    "HOL-Library.Monad_Syntax"
begin

unbundle bit_operations_syntax

section \<open>Errors\<close>

text \<open>
  A Go \<^verbatim>\<open>error\<close> value is modelled by its message; a run-time panic is a
  separate constructor, so that a function which panics is told apart from one that
  returns an error.
\<close>

datatype error = Panic string | Err string

text \<open>\<^verbatim>\<open>errors.Wrap(err, msg)\<close> prefixes the message; a panic is not an error value and
  passes through untouched.\<close>

fun Wrap :: "error \<Rightarrow> string \<Rightarrow> error" where
  "Wrap (Err inner) msg = Err (msg @ '': '' @ inner)"
| "Wrap (Panic p) msg = Panic p"

section \<open>Package util: padded decimal strings\<close>

text \<open>
  \<^verbatim>\<open>(*big.Int).String()\<close> renders an arbitrary-precision integer in base ten, most
  significant digit first, with a leading minus sign for negative values and no leading
  zeros. \<open>nat_digits\<close> is the digit loop on the magnitude.
\<close>

definition digit_char :: "nat \<Rightarrow> char" where
  "digit_char d = char_of (48 + d)"

fun nat_digits :: "nat \<Rightarrow> string" where
  "nat_digits n =
     (if n < 10 then [digit_char n]
      else nat_digits (n div 10) @ [digit_char (n mod 10)])"

definition Int_String :: "int \<Rightarrow> string" where
  "Int_String x =
     (if x < 0 then CHR ''-'' # nat_digits (nat (- x)) else nat_digits (nat x))"

definition FormattedBigIntLength :: int where
  "FormattedBigIntLength = 80"

text \<open>
  \<^verbatim>\<open>
  func BigIntToPaddedString(x *big.Int) string {
      raw := x.String()
      paddingSize := FormattedBigIntLength - len(raw)
      padding := make([]rune, paddingSize)
      for idx := range padding { padding[idx] = '0' }
      return string(padding) + raw
  }
  \<close>
  \<^verbatim>\<open>paddingSize\<close> is a signed \<^verbatim>\<open>int\<close>; \<^verbatim>\<open>make\<close> with a negative length panics.
\<close>

definition BigIntToPaddedString :: "int \<Rightarrow> error + string" where
  "BigIntToPaddedString x =
     (let raw = Int_String x;
          paddingSize = FormattedBigIntLength - int (length raw)
      in if paddingSize < 0 then Inl (Panic ''makeslice: len out of range'')
         else Inr (replicate (nat paddingSize) CHR ''0'' @ raw))"

text \<open>
  The fixed-width rendering used in the proofs: exactly \<open>w\<close> digits of \<open>n\<close>, least
  significant last. It is not part of the program; the padded string of a number that
  fits is shown to coincide with it.
\<close>

fun fixed :: "nat \<Rightarrow> nat \<Rightarrow> string" where
  "fixed 0 n = []"
| "fixed (Suc w) n = fixed w (n div 10) @ [digit_char (n mod 10)]"

section \<open>Package proto: enumerations and request messages\<close>

text \<open>
  Modelled from the spec: the generated protobuf package (enumerations \<^verbatim>\<open>OrderType\<close>,
  \<^verbatim>\<open>OrderStatus\<close>, \<^verbatim>\<open>CmpOp\<close>, \<^verbatim>\<open>SortingOrder\<close>, \<^verbatim>\<open>IdentityLevel\<close>) is not among the sources.
  Each enumeration is a 32-bit integer type with named constants, as protobuf generates
  them; the spec names ask/bid order types, the active order status, the three
  comparison operators and the two sorting directions.
\<close>

type_synonym OrderType = "32 word"
type_synonym OrderStatus = "32 word"
type_synonym CmpOp = "32 word"
type_synonym SortingOrder = "32 word"
type_synonym IdentityLevel = "32 word"

definition OrderType_BID :: OrderType where "OrderType_BID = 1"
definition OrderType_ASK :: OrderType where "OrderType_ASK = 2"

definition OrderStatus_ORDER_UNKNOWN :: OrderStatus where "OrderStatus_ORDER_UNKNOWN = 0"
definition OrderStatus_ORDER_INACTIVE :: OrderStatus where "OrderStatus_ORDER_INACTIVE = 1"
definition OrderStatus_ORDER_ACTIVE :: OrderStatus where "OrderStatus_ORDER_ACTIVE = 2"

definition CmpOp_EQ :: CmpOp where "CmpOp_EQ = 0"
definition CmpOp_GTE :: CmpOp where "CmpOp_GTE = 1"
definition CmpOp_LTE :: CmpOp where "CmpOp_LTE = 2"

definition SortingOrder_Asc :: SortingOrder where "SortingOrder_Asc = 0"
definition SortingOrder_Desc :: SortingOrder where "SortingOrder_Desc = 1"

text \<open>
  Modelled from the spec: \<^verbatim>\<open>pb.SortingOrder_name\<close>, the generated map from a sorting
  order's number to its name. A key that is not in a Go map reads as the empty string.
\<close>

definition SortingOrder_name :: "32 word \<Rightarrow> string" where
  "SortingOrder_name k =
     (if k = SortingOrder_Asc then ''Asc''
      else if k = SortingOrder_Desc then ''Desc'' else '''')"

type_synonym address = "160 word"

section \<open>Query arguments and the select builder\<close>

text \<open>
  The arguments of a statement are Go values of type \<^verbatim>\<open>interface{}\<close>: each carries its
  dynamic type. \<open>VArgs\<close> is a whole argument slice passed as one value.
\<close>

datatype sqlval =
    VString string
  | VUint64 "64 word"
  | VInt64 "64 word"
  | VBool bool
  | VBytes "8 word list"
  | VOrderType OrderType
  | VOrderStatus OrderStatus
  | VIdentityLevel IdentityLevel
  | VArgs "sqlval list"

text \<open>
  The part of \<^verbatim>\<open>squirrel.SelectBuilder\<close> the storage uses: \<^verbatim>\<open>Where(pred, args...)\<close>
  adds a predicate text with its arguments, \<^verbatim>\<open>Where(squirrel.Eq{col: []string{...}})\<close>
  a membership test, both joined by \<^verbatim>\<open>AND\<close>; \<^verbatim>\<open>OrderBy\<close> appends, \<^verbatim>\<open>Limit\<close> and
  \<^verbatim>\<open>Offset\<close> overwrite.
\<close>

datatype wherePart = Expr string "sqlval list" | Eq string "string list"

record SelectBuilder =
  sb_Columns :: "string list"
  sb_From :: string
  sb_WhereParts :: "wherePart list"
  sb_OrderBys :: "string list"
  sb_Limit :: "64 word option"
  sb_Offset :: "64 word option"

definition Select :: "string list \<Rightarrow> SelectBuilder" where
  "Select cols = \<lparr> sb_Columns = cols, sb_From = '''', sb_WhereParts = [],
                   sb_OrderBys = [], sb_Limit = None, sb_Offset = None \<rparr>"

definition From :: "SelectBuilder \<Rightarrow> string \<Rightarrow> SelectBuilder" where
  "From b t = b\<lparr> sb_From := t \<rparr>"

definition Where :: "SelectBuilder \<Rightarrow> string \<Rightarrow> sqlval list \<Rightarrow> SelectBuilder" where
  "Where b pred args = b\<lparr> sb_WhereParts := sb_WhereParts b @ [Expr pred args] \<rparr>"

definition WhereEq :: "SelectBuilder \<Rightarrow> string \<Rightarrow> string list \<Rightarrow> SelectBuilder" where
  "WhereEq b col vals = b\<lparr> sb_WhereParts := sb_WhereParts b @ [Eq col vals] \<rparr>"

definition OrderBy :: "SelectBuilder \<Rightarrow> string list \<Rightarrow> SelectBuilder" where
  "OrderBy b sorts = b\<lparr> sb_OrderBys := sb_OrderBys b @ sorts \<rparr>"

definition Limit :: "SelectBuilder \<Rightarrow> 64 word \<Rightarrow> SelectBuilder" where
  "Limit b n = b\<lparr> sb_Limit := Some n \<rparr>"

definition Offset :: "SelectBuilder \<Rightarrow> 64 word \<Rightarrow> SelectBuilder" where
  "Offset b n = b\<lparr> sb_Offset := Some n \<rparr>"

text \<open>\<^verbatim>\<open>strings.Join\<close>.\<close>

fun Join :: "string list \<Rightarrow> string \<Rightarrow> string" where
  "Join [] sep = []"
| "Join [x] sep = x"
| "Join (x # y # ys) sep = x @ sep @ Join (y # ys) sep"

text \<open>
  \<^verbatim>\<open>ToSql\<close> renders the statement and collects the arguments in order. A predicate text
  is written as it is; a membership test becomes \<^verbatim>\<open>col IN (?,?)\<close> with one placeholder
  per value. The placeholders are left as question marks (the dollar format of the
  second dialect only numbers them).
\<close>

fun wherePart_sql :: "wherePart \<Rightarrow> string" where
  "wherePart_sql (Expr pred args) = pred"
| "wherePart_sql (Eq col vals) =
     col @ '' IN ('' @ Join (map (\<lambda>_. ''?'') vals) '','' @ '')''"

fun wherePart_args :: "wherePart \<Rightarrow> sqlval list" where
  "wherePart_args (Expr pred args) = args"
| "wherePart_args (Eq col vals) = map VString vals"

definition ToSql :: "SelectBuilder \<Rightarrow> string \<times> sqlval list" where
  "ToSql b =
     (''SELECT '' @ Join (sb_Columns b) '', ''
        @ (if sb_From b = [] then [] else '' FROM '' @ sb_From b)
        @ (if sb_WhereParts b = [] then []
           else '' WHERE '' @ Join (map wherePart_sql (sb_WhereParts b)) '' AND '')
        @ (if sb_OrderBys b = [] then []
           else '' ORDER BY '' @ Join (sb_OrderBys b) '', '')
        @ (case sb_Limit b of None \<Rightarrow> [] | Some n \<Rightarrow> '' LIMIT '' @ nat_digits (unat n))
        @ (case sb_Offset b of None \<Rightarrow> [] | Some n \<Rightarrow> '' OFFSET '' @ nat_digits (unat n)),
      concat (map wherePart_args (sb_WhereParts b)))"

subsection \<open>The shared builder helpers of sql.go\<close>

text \<open>
  \<^verbatim>\<open>
  func builderWithOffsetLimit(builder squirrel.SelectBuilder, limit, offset uint64) squirrel.SelectBuilder {
      if limit > 0 { builder = builder.Limit(limit) }
      if offset > 0 { builder = builder.Offset(offset) }
      return builder
  }
  \<close>
\<close>

definition builderWithOffsetLimit :: "SelectBuilder \<Rightarrow> 64 word \<Rightarrow> 64 word \<Rightarrow> SelectBuilder" where
  "builderWithOffsetLimit builder limit offset =
     (let builder = (if 0 < limit then Limit builder limit else builder);
          builder = (if 0 < offset then Offset builder offset else builder)
      in builder)"

record SortingOption =
  so_Field :: string
  so_Order :: SortingOrder

text \<open>
  \<^verbatim>\<open>
  func builderWithSortings(builder squirrel.SelectBuilder, sortings []*pb.SortingOption) squirrel.SelectBuilder {
      var sortsFlat []string
      for _, sort := range sortings {
          sortsFlat = append(sortsFlat, fmt.Sprintf("%s %s", sort.Field, pb.SortingOrder_name[int32(sort.Order)]))
      }
      builder = builder.OrderBy(sortsFlat...)
      return builder
  }
  \<close>
\<close>

definition builderWithSortings :: "SelectBuilder \<Rightarrow> SortingOption list \<Rightarrow> SelectBuilder" where
  "builderWithSortings builder sortings =
     OrderBy builder
       (map (\<lambda>sort. so_Field sort @ '' '' @ SortingOrder_name (so_Order sort)) sortings)"

text \<open>
  \<^verbatim>\<open>
  func (c *sqlStorage) filterSortings(sortings []*pb.SortingOption, columns map[string]bool) (out []*pb.SortingOption) {
      for _, sorting := range sortings {
          if columns[sorting.Field] { out = append(out, sorting) }
      }
      return out
  }
  \<close>
  The set of columns is the set of keys mapped to \<^verbatim>\<open>true\<close>. No function of the
  storage calls it.
\<close>

definition filterSortings :: "SortingOption list \<Rightarrow> (string \<Rightarrow> bool) \<Rightarrow> SortingOption list" where
  "filterSortings sortings columns = filter (\<lambda>sorting. columns (so_Field sorting)) sortings"

text \<open>
  \<^verbatim>\<open>
  func newNetflagsWhere(builder squirrel.SelectBuilder, operator pb.CmpOp, value uint64) squirrel.SelectBuilder {
      switch operator {
      case pb.CmpOp_GTE: return builder.Where("Netflags | ~ ? = -1", value)
      case pb.CmpOp_LTE: return builder.Where("? | ~Netflags = -1", value)
      default:           return builder.Where("Netflags = ?", value)
      }
  }
  \<close>
\<close>

definition newNetflagsWhere :: "SelectBuilder \<Rightarrow> CmpOp \<Rightarrow> 64 word \<Rightarrow> SelectBuilder" where
  "newNetflagsWhere builder operator v =
     (if operator = CmpOp_GTE then Where builder ''Netflags | ~ ? = -1'' [VUint64 v]
      else if operator = CmpOp_LTE then Where builder ''? | ~Netflags = -1'' [VUint64 v]
      else Where builder ''Netflags = ?'' [VUint64 v])"

subsection \<open>What the generated predicates mean on a stored row\<close>

text \<open>
  A stored row maps a column name to its value. The predicate texts the storage emits
  have three shapes, read as the database reads them on 64-bit integers and on text:
  \<^verbatim>\<open>col op ?\<close> with \<^verbatim>\<open>op\<close> one of \<^verbatim>\<open>=\<close>, \<^verbatim>\<open><=\<close>, \<^verbatim>\<open>>=\<close>; \<^verbatim>\<open>col | ~ ? = -1\<close>; and
  \<^verbatim>\<open>? | ~col = -1\<close>, where \<^verbatim>\<open>|\<close> and \<^verbatim>\<open>~\<close> are bitwise or and complement, which bind
  tighter than the comparison, and \<^verbatim>\<open>-1\<close> is the integer with every bit set. Integers
  compare as signed 64-bit values, text compares bytewise.
\<close>

type_synonym row = "string \<Rightarrow> sqlval option"

fun as_int :: "sqlval \<Rightarrow> 64 word option" where
  "as_int (VUint64 w) = Some w"
| "as_int (VInt64 w) = Some w"
| "as_int (VOrderType t) = Some (scast t)"
| "as_int (VOrderStatus t) = Some (scast t)"
| "as_int (VIdentityLevel t) = Some (scast t)"
| "as_int (VBool b) = Some (if b then 1 else 0)"
| "as_int _ = None"

fun as_text :: "sqlval \<Rightarrow> string option" where
  "as_text (VString s) = Some s"
| "as_text _ = None"

fun split_words :: "string \<Rightarrow> string list" where
  "split_words [] = [[]]"
| "split_words (c # cs) =
     (if c = CHR '' '' then [] # split_words cs
      else (case split_words cs of w # ws \<Rightarrow> (c # w) # ws | [] \<Rightarrow> [[c]]))"

definition compare_vals :: "string \<Rightarrow> sqlval \<Rightarrow> sqlval \<Rightarrow> bool" where
  "compare_vals op a b =
     (case (as_int a, as_int b) of
        (Some x, Some y) \<Rightarrow>
          (if op = ''='' then x = y
           else if op = ''<='' then x \<le>s y
           else if op = ''>='' then y \<le>s x else False)
      | _ \<Rightarrow>
        (case (as_text a, as_text b) of
           (Some s, Some t) \<Rightarrow>
             (if op = ''='' then s = t
              else if op = ''<='' then s \<le> t
              else if op = ''>='' then t \<le> s else False)
         | _ \<Rightarrow> False))"

definition holds_expr :: "string list \<Rightarrow> sqlval list \<Rightarrow> row \<Rightarrow> bool" where
  "holds_expr ws args r =
     (case (ws, args) of
        ([col, bar, tilde, q, eq, m1], [v]) \<Rightarrow>
          bar = ''|'' \<and> tilde = ''~'' \<and> q = ''?'' \<and> eq = ''='' \<and> m1 = ''-1'' \<and>
          (case (r col, as_int v) of
             (Some cv, Some y) \<Rightarrow>
               (case as_int cv of Some x \<Rightarrow> x OR NOT y = - 1 | None \<Rightarrow> False)
           | _ \<Rightarrow> False)
      | ([q, bar, tcol, eq, m1], [v]) \<Rightarrow>
          q = ''?'' \<and> bar = ''|'' \<and> eq = ''='' \<and> m1 = ''-1'' \<and> take 1 tcol = ''~'' \<and>
          (case (r (drop 1 tcol), as_int v) of
             (Some cv, Some y) \<Rightarrow>
               (case as_int cv of Some x \<Rightarrow> y OR NOT x = - 1 | None \<Rightarrow> False)
           | _ \<Rightarrow> False)
      | ([col, op, q], [v]) \<Rightarrow>
          q = ''?'' \<and> (case r col of Some cv \<Rightarrow> compare_vals op cv v | None \<Rightarrow> False)
      | _ \<Rightarrow> False)"

fun holds :: "wherePart \<Rightarrow> row \<Rightarrow> bool" where
  "holds (Expr pred args) r = holds_expr (split_words pred) args r"
| "holds (Eq col vals) r =
     (case r col of Some cv \<Rightarrow> (case as_text cv of Some s \<Rightarrow> s \<in> set vals | None \<Rightarrow> False)
      | None \<Rightarrow> False)"

text \<open>A row is selected when every predicate of the statement holds on it.\<close>

definition selects :: "SelectBuilder \<Rightarrow> row \<Rightarrow> bool" where
  "selects b r = list_all (\<lambda>p. holds p r) (sb_WhereParts b)"


section \<open>Library functions the storage relies on\<close>

text \<open>
  Some functions the storage calls live outside the sources at hand. Those whose
  result matters only up to identity are taken as parameters:
  \<^item> \<open>dep_Hex\<close>: \<^verbatim>\<open>common.Address.Hex\<close>, the textual form of an address;
  \<^item> \<open>dep_HexToAddress\<close>: \<^verbatim>\<open>common.HexToAddress\<close>;
  \<^item> \<open>dep_getBenchmarkColumn\<close>: \<^verbatim>\<open>getBenchmarkColumn\<close>, the column name of a benchmark
    index (declared in a file of package dwh that is not among the sources);
  \<^item> \<open>dep_SetStringFailed\<close>: the value \<^verbatim>\<open>(*big.Int).SetString\<close> leaves in its receiver
    when it fails, which the library documents as undefined.
\<close>

record deps =
  dep_Hex :: "address \<Rightarrow> string"
  dep_HexToAddress :: "string \<Rightarrow> address"
  dep_getBenchmarkColumn :: "64 word \<Rightarrow> string"
  dep_SetStringFailed :: "string \<Rightarrow> int"

definition bindE :: "error + 'a \<Rightarrow> ('a \<Rightarrow> error + 'b) \<Rightarrow> error + 'b" where
  "bindE m f = (case m of Inl e \<Rightarrow> Inl e | Inr x \<Rightarrow> f x)"

definition wrapE :: "error + 'a \<Rightarrow> string \<Rightarrow> error + 'a" where
  "wrapE m msg = (case m of Inl e \<Rightarrow> Inl (Wrap e msg) | Inr x \<Rightarrow> Inr x)"

text \<open>
  \<^verbatim>\<open>(*big.Int).SetString(s, 10)\<close> succeeds on an optional sign followed by one or more
  decimal digits and nothing else.
\<close>

definition is_digit :: "char \<Rightarrow> bool" where
  "is_digit c = (CHR ''0'' \<le> c \<and> c \<le> CHR ''9'')"

definition digits_value :: "string \<Rightarrow> nat" where
  "digits_value ds = foldl (\<lambda>acc c. 10 * acc + (of_char c - 48)) 0 ds"

definition SetString10 :: "string \<Rightarrow> int option" where
  "SetString10 s =
     (let (neg, ds) = (case s of
                         c # t \<Rightarrow> if c = CHR ''-'' then (True, t)
                                  else if c = CHR ''+'' then (False, t) else (False, s)
                       | [] \<Rightarrow> (False, s))
      in if ds \<noteq> [] \<and> list_all is_digit ds
         then Some (if neg then - int (digits_value ds) else int (digits_value ds))
         else None)"

text \<open>
  \<^verbatim>\<open>
  func ParseBigInt(s string) (*big.Int, error) {
      n := new(big.Int)
      n, ok := n.SetString(s, 10)
      if !ok { return nil, fmt.Errorf("cannot convert %s to big.Int", s) }
      return n, nil
  }
  \<close>
\<close>

definition ParseBigInt :: "string \<Rightarrow> error + int" where
  "ParseBigInt s =
     (case SetString10 s of
        None \<Rightarrow> Inl (Err (''cannot convert '' @ s @ '' to big.Int''))
      | Some n \<Rightarrow> Inr n)"

text \<open>
  Modelled from the spec: \<^verbatim>\<open>pb.NewBigIntFromString\<close> and \<^verbatim>\<open>(*pb.BigInt).PaddedString\<close>
  of the protobuf package, which is not among the sources. Big integers are "re-parsed"
  from their stored strings and written as "padded decimal strings"; the two helpers
  are the wrappers of \<open>ParseBigInt\<close> and \<open>BigIntToPaddedString\<close> on the message type.
\<close>

definition NewBigIntFromString :: "string \<Rightarrow> error + int" where
  "NewBigIntFromString s = ParseBigInt s"

definition PaddedString :: "int \<Rightarrow> error + string" where
  "PaddedString m = BigIntToPaddedString m"

text \<open>
  \<^verbatim>\<open>b := new(big.Int); b.SetString(s, 10)\<close> with the result ignored: the parsed number,
  or whatever the failed call left behind.
\<close>

definition SetString_unchecked :: "deps \<Rightarrow> string \<Rightarrow> int" where
  "SetString_unchecked dp s =
     (case SetString10 s of Some n \<Rightarrow> n | None \<Rightarrow> dep_SetStringFailed dp s)"

text \<open>
  Modelled from the spec: \<^verbatim>\<open>IsZero\<close> of \<^verbatim>\<open>*pb.BigInt\<close> and \<^verbatim>\<open>*pb.EthAddress\<close> (protobuf
  package, not among the sources). A filter value is skipped "when the filter value is
  the zero value for its type": a nil pointer or a zero number or address.
\<close>

definition BigInt_IsZero :: "int option \<Rightarrow> bool" where
  "BigInt_IsZero m = (case m of None \<Rightarrow> True | Some n \<Rightarrow> n = 0)"

definition EthAddress_IsZero :: "address option \<Rightarrow> bool" where
  "EthAddress_IsZero m = (case m of None \<Rightarrow> True | Some a \<Rightarrow> a = 0)"

section \<open>The database connection\<close>

text \<open>
  \<^verbatim>\<open>queryConn\<close> is the interface of a connection or a transaction. A query gives an
  error or a cursor; the cursor is the list of its rows and the error, if any, that
  ended the iteration (\<^verbatim>\<open>rows.Err()\<close>). A statement gives an error or nothing.
\<close>

type_synonym Rows = "sqlval list list \<times> error option"

record queryConn =
  Query :: "string \<Rightarrow> sqlval list \<Rightarrow> error + Rows"
  Exec :: "string \<Rightarrow> sqlval list \<Rightarrow> error option"

text \<open>
  \<^verbatim>\<open>rows.Scan\<close> fails unless there is one destination per column. A column is assigned
  to a destination of its own kind; integers come from the driver as signed 64-bit values
  and are assigned to an unsigned destination unless negative, and to a boolean
  destination when 0 or 1.
\<close>

fun scan_string :: "sqlval \<Rightarrow> string option" where
  "scan_string (VString s) = Some s"
| "scan_string _ = None"

fun scan_uint64 :: "sqlval \<Rightarrow> 64 word option" where
  "scan_uint64 (VUint64 w) = Some w"
| "scan_uint64 (VInt64 w) = (if 0 \<le>s w then Some w else None)"
| "scan_uint64 _ = None"

fun scan_int64 :: "sqlval \<Rightarrow> 64 word option" where
  "scan_int64 (VInt64 w) = Some w"
| "scan_int64 (VUint64 w) = (if 0 \<le>s w then Some w else None)"
| "scan_int64 _ = None"

fun scan_bytes :: "sqlval \<Rightarrow> 8 word list option" where
  "scan_bytes (VBytes b) = Some b"
| "scan_bytes _ = None"

fun scan_bool :: "sqlval \<Rightarrow> bool option" where
  "scan_bool (VBool b) = Some b"
| "scan_bool (VInt64 w) = (if w = 0 then Some False else if w = 1 then Some True else None)"
| "scan_bool _ = None"

text \<open>\<^verbatim>\<open>strings.Replace(s, old, new, 1)\<close>: the first occurrence only.\<close>

fun Replace1 :: "string \<Rightarrow> string \<Rightarrow> string \<Rightarrow> string" where
  "Replace1 [] old new = (if old = [] then new else [])"
| "Replace1 (c # cs) old new =
     (if take (length old) (c # cs) = old then new @ drop (length old) (c # cs)
      else c # Replace1 cs old new)"

text \<open>
  \<^verbatim>\<open>
  func runQuery(conn queryConn, columns string, withCount bool, query string, args ...interface{}) (*sql.Rows, uint64, error) {
      dataQuery := strings.Replace(query, "*", columns, 1)
      rows, err := conn.Query(dataQuery, args...)
      if err != nil {
          return nil, 0, errors.Wrapf(err, "data query `%s` failed", dataQuery)
      }
      var count uint64
      if withCount {
          var countQuery = strings.Replace(query, "*", "count(*)", 1)
          countRows, err := conn.Query(countQuery, args)
          defer countRows.Close()
          if err != nil {
              return nil, 0, errors.Wrapf(err, "count query `%s` failed", countQuery)
          }
          for countRows.Next() { countRows.Scan(&count) }
      }
      return rows, count, nil
  }
  \<close>
  The data query is called with \<^verbatim>\<open>args...\<close>, the elements of the slice; the count query
  with \<^verbatim>\<open>args\<close>, the slice itself as the single argument. When the count query fails
  \<^verbatim>\<open>countRows\<close> is nil and the deferred \<^verbatim>\<open>Close\<close> dereferences it. \<^verbatim>\<open>Scan\<close> errors in the
  count loop are dropped, so \<^verbatim>\<open>count\<close> keeps the last value that was scanned.
\<close>

definition scanCount :: "sqlval list list \<Rightarrow> 64 word" where
  "scanCount countRows =
     foldl (\<lambda>count r. case r of [v] \<Rightarrow> (case scan_uint64 v of Some n \<Rightarrow> n | None \<Rightarrow> count)
                              | _ \<Rightarrow> count) 0 countRows"

definition runQuery ::
  "queryConn \<Rightarrow> string \<Rightarrow> bool \<Rightarrow> string \<Rightarrow> sqlval list \<Rightarrow> error + (Rows \<times> 64 word)" where
  "runQuery conn columns withCount query args =
     (let dataQuery = Replace1 query ''*'' columns in
      case Query conn dataQuery args of
        Inl err \<Rightarrow> Inl (Wrap err (''data query `'' @ dataQuery @ ''` failed''))
      | Inr rows \<Rightarrow>
          if withCount then
            (let countQuery = Replace1 query ''*'' ''count(*)'' in
             case Query conn countQuery [VArgs args] of
               Inl err \<Rightarrow> Inl (Panic ''invalid memory address or nil pointer dereference'')
             | Inr countRows \<Rightarrow> Inr (rows, scanCount (fst countRows)))
          else Inr (rows, 0))"


section \<open>Entities and their decoders\<close>

text \<open>
  Modelled from the spec: the message types \<^verbatim>\<open>pb.Order\<close>, \<^verbatim>\<open>pb.DWHOrder\<close>, \<^verbatim>\<open>pb.Deal\<close>,
  \<^verbatim>\<open>pb.DWHDeal\<close>, \<^verbatim>\<open>pb.DealCondition\<close> and \<^verbatim>\<open>pb.DealChangeRequest\<close> of the protobuf
  package, which is not among the sources. The fields are those the decoders of sql.go
  fill in: big integers are unbounded integers, addresses 160-bit words, timestamps
  their seconds, benchmarks a list of 64-bit scores.
\<close>

record Order =
  o_Id :: int
  o_DealID :: int
  o_OrderType :: OrderType
  o_OrderStatus :: OrderStatus
  o_AuthorID :: address
  o_CounterpartyID :: address
  o_Duration :: "64 word"
  o_Price :: int
  o_Netflags :: "64 word"
  o_IdentityLevel :: IdentityLevel
  o_Blacklist :: string
  o_Tag :: "8 word list"
  o_FrozenSum :: int
  o_Benchmarks :: "64 word list"

record DWHOrder =
  dwo_Order :: Order
  dwo_CreatedTS :: "64 word"
  dwo_CreatorIdentityLevel :: "64 word"
  dwo_CreatorName :: string
  dwo_CreatorCountry :: string
  dwo_CreatorCertificates :: "8 word list"

record Deal =
  d_Id :: int
  d_SupplierID :: address
  d_ConsumerID :: address
  d_MasterID :: address
  d_AskID :: int
  d_BidID :: int
  d_Price :: int
  d_Duration :: "64 word"
  d_StartTime :: "64 word"
  d_EndTime :: "64 word"
  d_Status :: "32 word"
  d_BlockedBalance :: int
  d_TotalPayout :: int
  d_LastBillTS :: "64 word"
  d_Benchmarks :: "64 word list"

record DWHDeal =
  dwd_Deal :: Deal
  dwd_Netflags :: "64 word"
  dwd_AskIdentityLevel :: "64 word"
  dwd_BidIdentityLevel :: "64 word"
  dwd_SupplierCertificates :: "8 word list"
  dwd_ConsumerCertificates :: "8 word list"
  dwd_ActiveChangeRequest :: bool

record DealCondition =
  dc_Id :: "64 word"
  dc_SupplierID :: address
  dc_ConsumerID :: address
  dc_MasterID :: address
  dc_Price :: int
  dc_Duration :: "64 word"
  dc_StartTime :: "64 word"
  dc_EndTime :: "64 word"
  dc_TotalPayout :: int
  dc_DealID :: int

record DealChangeRequest =
  cr_Id :: int
  cr_DealID :: int
  cr_RequestType :: OrderType
  cr_Duration :: "64 word"
  cr_Price :: int
  cr_Status :: "32 word"

subsection \<open>The variables a row is scanned into\<close>

record OrderVars =
  ov_id :: string
  ov_createdTS :: "64 word"
  ov_dealID :: string
  ov_orderType :: "64 word"
  ov_orderStatus :: "64 word"
  ov_author :: string
  ov_counterAgent :: string
  ov_duration :: "64 word"
  ov_price :: string
  ov_netflags :: "64 word"
  ov_identityLevel :: "64 word"
  ov_blacklist :: string
  ov_tag :: "8 word list"
  ov_frozenSum :: string
  ov_creatorIdentityLevel :: "64 word"
  ov_creatorName :: string
  ov_creatorCountry :: string
  ov_creatorCertificates :: "8 word list"
  ov_benchmarks :: "64 word list"

definition scanOrder :: "nat \<Rightarrow> sqlval list \<Rightarrow> OrderVars option" where
  "scanOrder numBenchmarks r =
     (if length r \<noteq> 18 + numBenchmarks then None
      else do {
        id \<leftarrow> scan_string (r ! 0);
        createdTS \<leftarrow> scan_uint64 (r ! 1);
        dealID \<leftarrow> scan_string (r ! 2);
        orderType \<leftarrow> scan_uint64 (r ! 3);
        orderStatus \<leftarrow> scan_uint64 (r ! 4);
        author \<leftarrow> scan_string (r ! 5);
        counterAgent \<leftarrow> scan_string (r ! 6);
        duration \<leftarrow> scan_uint64 (r ! 7);
        price \<leftarrow> scan_string (r ! 8);
        netflags \<leftarrow> scan_uint64 (r ! 9);
        identityLevel \<leftarrow> scan_uint64 (r ! 10);
        blacklist \<leftarrow> scan_string (r ! 11);
        tag \<leftarrow> scan_bytes (r ! 12);
        frozenSum \<leftarrow> scan_string (r ! 13);
        creatorIdentityLevel \<leftarrow> scan_uint64 (r ! 14);
        creatorName \<leftarrow> scan_string (r ! 15);
        creatorCountry \<leftarrow> scan_string (r ! 16);
        creatorCertificates \<leftarrow> scan_bytes (r ! 17);
        benchmarks \<leftarrow> those (map scan_uint64 (drop 18 r));
        Some \<lparr> ov_id = id, ov_createdTS = createdTS, ov_dealID = dealID,
               ov_orderType = orderType, ov_orderStatus = orderStatus, ov_author = author,
               ov_counterAgent = counterAgent, ov_duration = duration, ov_price = price,
               ov_netflags = netflags, ov_identityLevel = identityLevel,
               ov_blacklist = blacklist, ov_tag = tag, ov_frozenSum = frozenSum,
               ov_creatorIdentityLevel = creatorIdentityLevel,
               ov_creatorName = creatorName, ov_creatorCountry = creatorCountry,
               ov_creatorCertificates = creatorCertificates, ov_benchmarks = benchmarks \<rparr>
      })"

text \<open>
  \<^verbatim>\<open>decodeOrder\<close> (sql.go, lines 1065 to 1158): after the scan, price, frozen sum, id and
  deal id are parsed with \<^verbatim>\<open>pb.NewBigIntFromString\<close>, and each failure is returned.
\<close>

definition decodeOrder :: "deps \<Rightarrow> 64 word \<Rightarrow> sqlval list \<Rightarrow> error + DWHOrder" where
  "decodeOrder dp numBenchmarks r =
     (case scanOrder (unat numBenchmarks) r of
        None \<Rightarrow> Inl (Err ''failed to scan Order row: sql: Scan error'')
      | Some v \<Rightarrow>
          bindE (wrapE (NewBigIntFromString (ov_price v)) ''failed to NewBigIntFromString (Price)'')
            (\<lambda>bigPrice.
          bindE (wrapE (NewBigIntFromString (ov_frozenSum v)) ''failed to NewBigIntFromString (FrozenSum)'')
            (\<lambda>bigFrozenSum.
          bindE (wrapE (NewBigIntFromString (ov_id v)) ''failed to NewBigIntFromString (ID)'')
            (\<lambda>bigID.
          bindE (wrapE (NewBigIntFromString (ov_dealID v)) ''failed to NewBigIntFromString (DealID)'')
            (\<lambda>bigDealID.
          Inr \<lparr> dwo_Order =
                  \<lparr> o_Id = bigID, o_DealID = bigDealID,
                    o_OrderType = ucast (ov_orderType v),
                    o_OrderStatus = ucast (ov_orderStatus v),
                    o_AuthorID = dep_HexToAddress dp (ov_author v),
                    o_CounterpartyID = dep_HexToAddress dp (ov_counterAgent v),
                    o_Duration = ov_duration v, o_Price = bigPrice,
                    o_Netflags = ov_netflags v,
                    o_IdentityLevel = ucast (ov_identityLevel v),
                    o_Blacklist = ov_blacklist v, o_Tag = ov_tag v,
                    o_FrozenSum = bigFrozenSum, o_Benchmarks = ov_benchmarks v \<rparr>,
                dwo_CreatedTS = ov_createdTS v,
                dwo_CreatorIdentityLevel = ov_creatorIdentityLevel v,
                dwo_CreatorName = ov_creatorName v,
                dwo_CreatorCountry = ov_creatorCountry v,
                dwo_CreatorCertificates = ov_creatorCertificates v \<rparr>)))))"

record DealVars =
  dv_id :: string
  dv_supplierID :: string
  dv_consumerID :: string
  dv_masterID :: string
  dv_askID :: string
  dv_bidID :: string
  dv_duration :: "64 word"
  dv_price :: string
  dv_startTime :: "64 word"
  dv_endTime :: "64 word"
  dv_dealStatus :: "64 word"
  dv_blockedBalance :: string
  dv_totalPayout :: string
  dv_lastBillTS :: "64 word"
  dv_netflags :: "64 word"
  dv_askIdentityLevel :: "64 word"
  dv_bidIdentityLevel :: "64 word"
  dv_supplierCertificates :: "8 word list"
  dv_consumerCertificates :: "8 word list"
  dv_activeChangeRequest :: bool
  dv_benchmarks :: "64 word list"

definition scanDeal :: "nat \<Rightarrow> sqlval list \<Rightarrow> DealVars option" where
  "scanDeal numBenchmarks r =
     (if length r \<noteq> 20 + numBenchmarks then None
      else do {
        id \<leftarrow> scan_string (r ! 0);
        supplierID \<leftarrow> scan_string (r ! 1);
        consumerID \<leftarrow> scan_string (r ! 2);
        masterID \<leftarrow> scan_string (r ! 3);
        askID \<leftarrow> scan_string (r ! 4);
        bidID \<leftarrow> scan_string (r ! 5);
        duration \<leftarrow> scan_uint64 (r ! 6);
        price \<leftarrow> scan_string (r ! 7);
        startTime \<leftarrow> scan_int64 (r ! 8);
        endTime \<leftarrow> scan_int64 (r ! 9);
        dealStatus \<leftarrow> scan_uint64 (r ! 10);
        blockedBalance \<leftarrow> scan_string (r ! 11);
        totalPayout \<leftarrow> scan_string (r ! 12);
        lastBillTS \<leftarrow> scan_int64 (r ! 13);
        netflags \<leftarrow> scan_uint64 (r ! 14);
        askIdentityLevel \<leftarrow> scan_uint64 (r ! 15);
        bidIdentityLevel \<leftarrow> scan_uint64 (r ! 16);
        supplierCertificates \<leftarrow> scan_bytes (r ! 17);
        consumerCertificates \<leftarrow> scan_bytes (r ! 18);
        activeChangeRequest \<leftarrow> scan_bool (r ! 19);
        benchmarks \<leftarrow> those (map scan_uint64 (drop 20 r));
        Some \<lparr> dv_id = id, dv_supplierID = supplierID, dv_consumerID = consumerID,
               dv_masterID = masterID, dv_askID = askID, dv_bidID = bidID,
               dv_duration = duration, dv_price = price, dv_startTime = startTime,
               dv_endTime = endTime, dv_dealStatus = dealStatus,
               dv_blockedBalance = blockedBalance, dv_totalPayout = totalPayout,
               dv_lastBillTS = lastBillTS, dv_netflags = netflags,
               dv_askIdentityLevel = askIdentityLevel,
               dv_bidIdentityLevel = bidIdentityLevel,
               dv_supplierCertificates = supplierCertificates,
               dv_consumerCertificates = consumerCertificates,
               dv_activeChangeRequest = activeChangeRequest, dv_benchmarks = benchmarks \<rparr>
      })"

text \<open>
  \<^verbatim>\<open>decodeDeal\<close> (sql.go, lines 906 to 1012). Price, blocked balance and total payout
  are set with
  \<^verbatim>\<open>
  bigPrice := new(big.Int)
  bigPrice.SetString(*price, 10)
  bigBlockedBalance := new(big.Int)
  bigBlockedBalance.SetString(*blockedBalance, 10)
  bigTotalPayout := new(big.Int)
  bigTotalPayout.SetString(*totalPayout, 10)
  \<close>
  and the result of \<^verbatim>\<open>SetString\<close> is not looked at; only the three ids go through
  \<^verbatim>\<open>pb.NewBigIntFromString\<close> with an error check.
\<close>

definition decodeDeal :: "deps \<Rightarrow> 64 word \<Rightarrow> sqlval list \<Rightarrow> error + DWHDeal" where
  "decodeDeal dp numBenchmarks r =
     (case scanDeal (unat numBenchmarks) r of
        None \<Rightarrow> Inl (Err ''failed to scan Deal row: sql: Scan error'')
      | Some v \<Rightarrow>
          (let bigPrice = SetString_unchecked dp (dv_price v);
               bigBlockedBalance = SetString_unchecked dp (dv_blockedBalance v);
               bigTotalPayout = SetString_unchecked dp (dv_totalPayout v)
           in
          bindE (wrapE (NewBigIntFromString (dv_id v)) ''failed to NewBigIntFromString (ID)'')
            (\<lambda>bigID.
          bindE (wrapE (NewBigIntFromString (dv_askID v)) ''failed to NewBigIntFromString (askID)'')
            (\<lambda>bigAskID.
          bindE (wrapE (NewBigIntFromString (dv_bidID v)) ''failed to NewBigIntFromString (bidID)'')
            (\<lambda>bigBidID.
          Inr \<lparr> dwd_Deal =
                  \<lparr> d_Id = bigID,
                    d_SupplierID = dep_HexToAddress dp (dv_supplierID v),
                    d_ConsumerID = dep_HexToAddress dp (dv_consumerID v),
                    d_MasterID = dep_HexToAddress dp (dv_masterID v),
                    d_AskID = bigAskID, d_BidID = bigBidID, d_Price = bigPrice,
                    d_Duration = dv_duration v, d_StartTime = dv_startTime v,
                    d_EndTime = dv_endTime v, d_Status = ucast (dv_dealStatus v),
                    d_BlockedBalance = bigBlockedBalance, d_TotalPayout = bigTotalPayout,
                    d_LastBillTS = dv_lastBillTS v, d_Benchmarks = dv_benchmarks v \<rparr>,
                dwd_Netflags = dv_netflags v,
                dwd_AskIdentityLevel = dv_askIdentityLevel v,
                dwd_BidIdentityLevel = dv_bidIdentityLevel v,
                dwd_SupplierCertificates = dv_supplierCertificates v,
                dwd_ConsumerCertificates = dv_consumerCertificates v,
                dwd_ActiveChangeRequest = dv_activeChangeRequest v \<rparr>)))))"

record DealConditionVars =
  cv_id :: "64 word"
  cv_supplierID :: string
  cv_consumerID :: string
  cv_masterID :: string
  cv_duration :: "64 word"
  cv_price :: string
  cv_startTime :: "64 word"
  cv_endTime :: "64 word"
  cv_totalPayout :: string
  cv_dealID :: string

definition scanDealCondition :: "sqlval list \<Rightarrow> DealConditionVars option" where
  "scanDealCondition r =
     (if length r \<noteq> 10 then None
      else do {
        id \<leftarrow> scan_uint64 (r ! 0);
        supplierID \<leftarrow> scan_string (r ! 1);
        consumerID \<leftarrow> scan_string (r ! 2);
        masterID \<leftarrow> scan_string (r ! 3);
        duration \<leftarrow> scan_uint64 (r ! 4);
        price \<leftarrow> scan_string (r ! 5);
        startTime \<leftarrow> scan_int64 (r ! 6);
        endTime \<leftarrow> scan_int64 (r ! 7);
        totalPayout \<leftarrow> scan_string (r ! 8);
        dealID \<leftarrow> scan_string (r ! 9);
        Some \<lparr> cv_id = id, cv_supplierID = supplierID, cv_consumerID = consumerID,
               cv_masterID = masterID, cv_duration = duration, cv_price = price,
               cv_startTime = startTime, cv_endTime = endTime,
               cv_totalPayout = totalPayout, cv_dealID = dealID \<rparr>
      })"

text \<open>
  \<^verbatim>\<open>decodeDealCondition\<close> (sql.go, lines 1014 to 1063): price and total payout are set
  with an unchecked \<^verbatim>\<open>SetString\<close>, the deal id is parsed with an error check.
\<close>

definition decodeDealCondition :: "deps \<Rightarrow> sqlval list \<Rightarrow> error + DealCondition" where
  "decodeDealCondition dp r =
     (case scanDealCondition r of
        None \<Rightarrow> Inl (Err ''failed to scan DealCondition row: sql: Scan error'')
      | Some v \<Rightarrow>
          (let bigPrice = SetString_unchecked dp (cv_price v);
               bigTotalPayout = SetString_unchecked dp (cv_totalPayout v)
           in
          bindE (wrapE (NewBigIntFromString (cv_dealID v)) ''failed to NewBigIntFromString (DealID)'')
            (\<lambda>bigDealID.
          Inr \<lparr> dc_Id = cv_id v,
                dc_SupplierID = dep_HexToAddress dp (cv_supplierID v),
                dc_ConsumerID = dep_HexToAddress dp (cv_consumerID v),
                dc_MasterID = dep_HexToAddress dp (cv_masterID v),
                dc_Price = bigPrice, dc_Duration = cv_duration v,
                dc_StartTime = cv_startTime v, dc_EndTime = cv_endTime v,
                dc_TotalPayout = bigTotalPayout, dc_DealID = bigDealID \<rparr>)))"

record ChangeRequestVars =
  rv_changeRequestID :: string
  rv_createdTS :: "64 word"
  rv_requestType :: "64 word"
  rv_duration :: "64 word"
  rv_price :: string
  rv_changeRequestStatus :: "64 word"
  rv_dealID :: string

definition scanDealChangeRequest :: "sqlval list \<Rightarrow> ChangeRequestVars option" where
  "scanDealChangeRequest r =
     (if length r \<noteq> 7 then None
      else do {
        changeRequestID \<leftarrow> scan_string (r ! 0);
        createdTS \<leftarrow> scan_uint64 (r ! 1);
        requestType \<leftarrow> scan_uint64 (r ! 2);
        duration \<leftarrow> scan_uint64 (r ! 3);
        price \<leftarrow> scan_string (r ! 4);
        changeRequestStatus \<leftarrow> scan_uint64 (r ! 5);
        dealID \<leftarrow> scan_string (r ! 6);
        Some \<lparr> rv_changeRequestID = changeRequestID, rv_createdTS = createdTS,
               rv_requestType = requestType, rv_duration = duration, rv_price = price,
               rv_changeRequestStatus = changeRequestStatus, rv_dealID = dealID \<rparr>
      })"

text \<open>
  \<^verbatim>\<open>decodeDealChangeRequest\<close> (sql.go, lines 1160 to 1202): the price is set with an
  unchecked \<^verbatim>\<open>SetString\<close>; the deal id and then the change request id are parsed with an
  error check.
\<close>

definition decodeDealChangeRequest :: "deps \<Rightarrow> sqlval list \<Rightarrow> error + DealChangeRequest" where
  "decodeDealChangeRequest dp r =
     (case scanDealChangeRequest r of
        None \<Rightarrow> Inl (Err ''failed to scan DealChangeRequest row: sql: Scan error'')
      | Some v \<Rightarrow>
          (let bigPrice = SetString_unchecked dp (rv_price v) in
          bindE (wrapE (NewBigIntFromString (rv_dealID v)) ''failed to NewBigIntFromString (ID)'')
            (\<lambda>bigDealID.
          bindE (wrapE (NewBigIntFromString (rv_changeRequestID v))
                   ''failed to NewBigIntFromString (ChangeRequestID)'')
            (\<lambda>bigChangeRequestID.
          Inr \<lparr> cr_Id = bigChangeRequestID, cr_DealID = bigDealID,
                cr_RequestType = ucast (rv_requestType v), cr_Duration = rv_duration v,
                cr_Price = bigPrice, cr_Status = ucast (rv_changeRequestStatus v) \<rparr>))))"


section \<open>The storage\<close>

definition gte :: string where "gte = ''>=''"
definition lte :: string where "lte = ''<=''"

record tablesInfo =
  DealColumns :: "string list"
  NumDealColumns :: "64 word"
  OrderColumns :: "string list"
  NumOrderColumns :: "64 word"
  DealConditionColumns :: "string list"
  DealChangeRequestColumns :: "string list"
  ProfileColumns :: "string list"

text \<open>\<^verbatim>\<open>newTablesInfo\<close> (sql.go, lines 1509 to 1598): the fixed columns of each table,
  followed for deals and orders by one column per benchmark.\<close>

definition newTablesInfo :: "deps \<Rightarrow> 64 word \<Rightarrow> tablesInfo" where
  "newTablesInfo dp numBenchmarks =
     (let dealColumns = [''Id'', ''SupplierID'', ''ConsumerID'', ''MasterID'', ''AskID'',
            ''BidID'', ''Duration'', ''Price'', ''StartTime'', ''EndTime'', ''Status'',
            ''BlockedBalance'', ''TotalPayout'', ''LastBillTS'', ''Netflags'',
            ''AskIdentityLevel'', ''BidIdentityLevel'', ''SupplierCertificates'',
            ''ConsumerCertificates'', ''ActiveChangeRequest''];
          orderColumns = [''Id'', ''CreatedTS'', ''DealID'', ''Type'', ''Status'',
            ''AuthorID'', ''CounterpartyID'', ''Duration'', ''Price'', ''Netflags'',
            ''IdentityLevel'', ''Blacklist'', ''Tag'', ''FrozenSum'',
            ''CreatorIdentityLevel'', ''CreatorName'', ''CreatorCountry'',
            ''CreatorCertificates''];
          dealChangeRequestColumns = [''Id'', ''CreatedTS'', ''RequestType'', ''Duration'',
            ''Price'', ''Status'', ''DealID''];
          dealConditionColumns = [''Id'', ''SupplierID'', ''ConsumerID'', ''MasterID'',
            ''Duration'', ''Price'', ''StartTime'', ''EndTime'', ''TotalPayout'', ''DealID''];
          profileColumns = [''Id'', ''UserID'', ''IdentityLevel'', ''Name'', ''Country'',
            ''IsCorporation'', ''IsProfessional'', ''Certificates''];
          benchmarkColumns =
            map (\<lambda>benchmarkID. dep_getBenchmarkColumn dp (of_nat benchmarkID))
              [0 ..< unat numBenchmarks]
      in \<lparr> DealColumns = dealColumns @ benchmarkColumns,
           NumDealColumns = of_nat (length dealColumns),
           OrderColumns = orderColumns @ benchmarkColumns,
           NumOrderColumns = of_nat (length orderColumns),
           DealConditionColumns = dealConditionColumns,
           DealChangeRequestColumns = dealChangeRequestColumns,
           ProfileColumns = profileColumns \<rparr>)"

text \<open>
  Of \<^verbatim>\<open>sqlStorage\<close>, the fields the modelled operations read: the insert statement for
  deals (one of the prepared command texts), the number of benchmarks and the column
  lists.
\<close>

record sqlStorage =
  st_insertDeal :: string
  st_numBenchmarks :: "64 word"
  st_tablesInfo :: tablesInfo

text \<open>A row loop \<^verbatim>\<open>for rows.Next() { x, err := decode(rows); if err != nil { return err }; out = append(out, x) }\<close>.\<close>

fun decodeRows :: "(sqlval list \<Rightarrow> error + 'a) \<Rightarrow> sqlval list list \<Rightarrow> error + 'a list" where
  "decodeRows decode [] = Inr []"
| "decodeRows decode (r # rs) =
     (case decode r of
        Inl err \<Rightarrow> Inl err
      | Inr x \<Rightarrow> (case decodeRows decode rs of Inl err \<Rightarrow> Inl err | Inr xs \<Rightarrow> Inr (x # xs)))"

text \<open>\<^verbatim>\<open>GetOrderByID\<close> (sql.go, lines 298 to 314).\<close>

definition GetOrderByID :: "deps \<Rightarrow> sqlStorage \<Rightarrow> queryConn \<Rightarrow> int \<Rightarrow> error + DWHOrder" where
  "GetOrderByID dp c conn orderID =
     (let (query, args) =
            ToSql (Where (From (Select (OrderColumns (st_tablesInfo c))) ''Orders'')
                     ''Id = ?'' [VString (Int_String orderID)])
      in case Query conn query args of
           Inl err \<Rightarrow> Inl (Wrap err ''failed to selectOrderByID'')
         | Inr rows \<Rightarrow>
             (case fst rows of
                [] \<Rightarrow> Inl (Err ''no rows returned'')
              | r # _ \<Rightarrow> decodeOrder dp (st_numBenchmarks c) r))"

subsection \<open>GetOrders\<close>

text \<open>
  Modelled from the spec: the request messages of the protobuf package (not among the
  sources), with the fields \<^verbatim>\<open>GetOrders\<close> and \<^verbatim>\<open>GetMatchingOrders\<close> read. A pointer field
  that may be nil is an option; the entries of the benchmark map are listed in the order
  the range loop visits them.
\<close>

record MaxMinUint64 =
  mmu_Max :: "64 word"
  mmu_Min :: "64 word"

record MaxMinBig =
  mmb_Max :: "int option"
  mmb_Min :: "int option"

record MaxMinTimestamp =
  mmt_Max :: "64 word option"
  mmt_Min :: "64 word option"

record CmpUint64 =
  cmp_Operator :: CmpOp
  cmp_Value :: "64 word"

record OrdersRequest =
  or_DealID :: "int option"
  or_Type :: OrderType
  or_AuthorID :: "address option"
  or_CounterpartyID :: "address option"
  or_Duration :: "MaxMinUint64 option"
  or_Price :: "MaxMinBig option"
  or_Netflags :: "CmpUint64 option"
  or_CreatorIdentityLevel :: "64 word"
  or_CreatedTS :: "MaxMinTimestamp option"
  or_Benchmarks :: "(64 word \<times> MaxMinUint64) list option"
  or_Offset :: "64 word"
  or_Limit :: "64 word"
  or_Sortings :: "SortingOption list"
  or_WithCount :: bool

text \<open>
  \<^verbatim>\<open>
  func (c *sqlStorage) addBenchmarksConditionsWhere(builder squirrel.SelectBuilder, benches map[uint64]*pb.MaxMinUint64) squirrel.SelectBuilder {
      for benchID, condition := range benches {
          if condition.Max > 0 {
              builder = builder.Where(fmt.Sprintf("%s <= ?", getBenchmarkColumn(benchID)), condition.Max)
          }
          if condition.Min > 0 {
              builder = builder.Where(fmt.Sprintf("%s >= ?", getBenchmarkColumn(benchID)), condition.Min)
          }
      }
      return builder
  }
  \<close>
\<close>

fun addBenchmarksConditionsWhere ::
  "deps \<Rightarrow> SelectBuilder \<Rightarrow> (64 word \<times> MaxMinUint64) list \<Rightarrow> SelectBuilder" where
  "addBenchmarksConditionsWhere dp builder [] = builder"
| "addBenchmarksConditionsWhere dp builder ((benchID, condition) # benches) =
     (let builder = (if 0 < mmu_Max condition
                     then Where builder (dep_getBenchmarkColumn dp benchID @ '' <= ?'')
                            [VUint64 (mmu_Max condition)]
                     else builder);
          builder = (if 0 < mmu_Min condition
                     then Where builder (dep_getBenchmarkColumn dp benchID @ '' >= ?'')
                            [VUint64 (mmu_Min condition)]
                     else builder)
      in addBenchmarksConditionsWhere dp builder benches)"

text \<open>
  The builder of \<^verbatim>\<open>GetOrders\<close> (sql.go, lines 317 to 364), from \<^verbatim>\<open>Select("*")\<close> to
  \<^verbatim>\<open>builderWithSortings\<close>. The first predicate is added without a condition:
  \<^verbatim>\<open>builder = builder.Where("Status = ?", pb.OrderStatus_ORDER_ACTIVE)\<close>.
  \<^verbatim>\<open>PaddedString\<close> of a price bound can panic.
\<close>

definition ordersBuilder :: "deps \<Rightarrow> OrdersRequest \<Rightarrow> error + SelectBuilder" where
  "ordersBuilder dp r =
     (let builder = From (Select [''*'']) ''Orders'';
          builder = Where builder ''Status = ?'' [VOrderStatus OrderStatus_ORDER_ACTIVE];
          builder = (if \<not> BigInt_IsZero (or_DealID r)
                     then Where builder ''DealID = ?'' [VString (Int_String (the (or_DealID r)))]
                     else builder);
          builder = (if 0 <s or_Type r
                     then Where builder ''Type = ?'' [VOrderType (or_Type r)] else builder);
          builder = (if \<not> EthAddress_IsZero (or_AuthorID r)
                     then Where builder ''AuthorID = ?'' [VString (dep_Hex dp (the (or_AuthorID r)))]
                     else builder);
          builder = (if \<not> EthAddress_IsZero (or_CounterpartyID r)
                     then Where builder ''CounterpartyID = ?''
                            [VString (dep_Hex dp (the (or_CounterpartyID r)))]
                     else builder);
          builder = (case or_Duration r of
                       None \<Rightarrow> builder
                     | Some duration \<Rightarrow>
                         Where (if 0 < mmu_Max duration
                                then Where builder ''Duration <= ?'' [VUint64 (mmu_Max duration)]
                                else builder)
                           ''Duration >= ?'' [VUint64 (mmu_Min duration)])
      in
      bindE (case or_Price r of
               None \<Rightarrow> Inr builder
             | Some price \<Rightarrow>
                 bindE (case mmb_Max price of
                          None \<Rightarrow> Inr builder
                        | Some m \<Rightarrow> bindE (PaddedString m)
                            (\<lambda>s. Inr (Where builder ''Price <= ?'' [VString s])))
                   (\<lambda>builder. case mmb_Min price of
                          None \<Rightarrow> Inr builder
                        | Some m \<Rightarrow> bindE (PaddedString m)
                            (\<lambda>s. Inr (Where builder ''Price >= ?'' [VString s]))))
        (\<lambda>builder.
           let builder = (case or_Netflags r of
                            None \<Rightarrow> builder
                          | Some nf \<Rightarrow>
                              if 0 < cmp_Value nf
                              then newNetflagsWhere builder (cmp_Operator nf) (cmp_Value nf)
                              else builder);
               builder = (if 0 < or_CreatorIdentityLevel r
                          then Where builder ''CreatorIdentityLevel >= ?''
                                 [VUint64 (or_CreatorIdentityLevel r)]
                          else builder);
               builder = (case or_CreatedTS r of
                            None \<Rightarrow> builder
                          | Some createdTS \<Rightarrow>
                              (let builder =
                                     (case mmt_Max createdTS of
                                        None \<Rightarrow> builder
                                      | Some s \<Rightarrow> if 0 <s s
                                          then Where builder ''CreatedTS <= ?'' [VInt64 s]
                                          else builder)
                               in case mmt_Min createdTS of
                                    None \<Rightarrow> builder
                                  | Some s \<Rightarrow> if 0 <s s
                                      then Where builder ''CreatedTS >= ?'' [VInt64 s]
                                      else builder));
               builder = (case or_Benchmarks r of
                            None \<Rightarrow> builder
                          | Some benches \<Rightarrow> addBenchmarksConditionsWhere dp builder benches);
               builder = builderWithSortings builder (or_Sortings r)
           in Inr builder))"

text \<open>The statement \<^verbatim>\<open>GetOrders\<close> hands to \<^verbatim>\<open>runQuery\<close>:
  \<^verbatim>\<open>query, args, _ := builderWithOffsetLimit(builder, r.Limit, r.Offset).ToSql()\<close>.\<close>

definition ordersQuery :: "deps \<Rightarrow> OrdersRequest \<Rightarrow> error + (string \<times> sqlval list)" where
  "ordersQuery dp r =
     bindE (ordersBuilder dp r)
       (\<lambda>builder. Inr (ToSql (builderWithOffsetLimit builder (or_Limit r) (or_Offset r))))"

text \<open>\<^verbatim>\<open>GetOrders\<close> (sql.go, lines 316 to 386).\<close>

definition GetOrders ::
  "deps \<Rightarrow> sqlStorage \<Rightarrow> queryConn \<Rightarrow> OrdersRequest \<Rightarrow> error + (DWHOrder list \<times> 64 word)" where
  "GetOrders dp c conn r =
     bindE (ordersQuery dp r)
       (\<lambda>(query, args).
          case runQuery conn (Join (OrderColumns (st_tablesInfo c)) '', '') (or_WithCount r)
                 query args of
            Inl err \<Rightarrow> Inl (Wrap err ''failed to run query'')
          | Inr (rows, count) \<Rightarrow>
              bindE (decodeRows
                       (\<lambda>row. wrapE (decodeOrder dp (st_numBenchmarks c) row)
                                 ''failed to decodeOrder'') (fst rows))
                (\<lambda>orders. case snd rows of
                             Some err \<Rightarrow> Inl (Wrap err ''rows error'')
                           | None \<Rightarrow> Inr (orders, count)))"

subsection \<open>GetMatchingOrders\<close>

record MatchingOrdersRequest =
  mr_Id :: int
  mr_Limit :: "64 word"
  mr_Offset :: "64 word"
  mr_WithCount :: bool

text \<open>The loop
  \<^verbatim>\<open>
  for benchID, benchValue := range order.Order.Benchmarks.Values {
      builder = builder.Where(fmt.Sprintf("%s %s ?", getBenchmarkColumn(uint64(benchID)), benchOp), benchValue)
  }
  \<close>
  with the index counted up from \<open>benchID\<close>.\<close>

fun matchingBenchmarksWhere ::
  "deps \<Rightarrow> string \<Rightarrow> SelectBuilder \<Rightarrow> nat \<Rightarrow> 64 word list \<Rightarrow> SelectBuilder" where
  "matchingBenchmarksWhere dp benchOp builder benchID [] = builder"
| "matchingBenchmarksWhere dp benchOp builder benchID (benchValue # vs) =
     matchingBenchmarksWhere dp benchOp
       (Where builder (dep_getBenchmarkColumn dp (of_nat benchID) @ '' '' @ benchOp @ '' ?'')
          [VUint64 benchValue])
       (Suc benchID) vs"

text \<open>
  The builder of \<^verbatim>\<open>GetMatchingOrders\<close> for the reference order it has read (sql.go,
  lines 389 and 396 to 440). The two statements on the counterparty are
  \<^verbatim>\<open>
  if !order.Order.CounterpartyID.IsZero() {
      builder = builder.Where("AuthorID = ?", order.Order.CounterpartyID.Unwrap().Hex())
  }
  builder = builder.Where(squirrel.Eq{
      "CounterpartyID": []string{common.Address{}.Hex(), order.Order.AuthorID.Unwrap().Hex()},
  })
  \<close>
  the second one outside the conditional.
\<close>

definition matchingOrdersBuilder :: "deps \<Rightarrow> DWHOrder \<Rightarrow> error + SelectBuilder" where
  "matchingOrdersBuilder dp order =
     (let builder = From (Select [''*'']) ''Orders'';
          ord = dwo_Order order;
          (orderType, priceOp, durationOp, benchOp, sortingOrder) =
            (if o_OrderType ord = OrderType_BID
             then (OrderType_ASK, lte, gte, gte, SortingOrder_Asc)
             else (OrderType_BID, gte, lte, lte, SortingOrder_Desc));
          builder = Where builder ''Type = ?'' [VOrderType orderType];
          builder = Where builder ''Status = ?'' [VOrderStatus OrderStatus_ORDER_ACTIVE]
      in
      bindE (PaddedString (o_Price ord))
        (\<lambda>price.
           let builder = Where builder (''Price '' @ priceOp @ '' ?'') [VString price];
               builder = (if 0 < o_Duration ord
                          then Where builder (''Duration '' @ durationOp @ '' ?'')
                                 [VUint64 (o_Duration ord)]
                          else Where builder ''Duration = ?'' [VUint64 (o_Duration ord)]);
               builder = (if \<not> EthAddress_IsZero (Some (o_CounterpartyID ord))
                          then Where builder ''AuthorID = ?''
                                 [VString (dep_Hex dp (o_CounterpartyID ord))]
                          else builder);
               builder = WhereEq builder ''CounterpartyID''
                           [dep_Hex dp 0, dep_Hex dp (o_AuthorID ord)];
               builder = (if o_OrderType ord = OrderType_BID
                          then newNetflagsWhere builder CmpOp_GTE (o_Netflags ord)
                          else newNetflagsWhere builder CmpOp_LTE (o_Netflags ord));
               builder = Where builder ''IdentityLevel >= ?''
                           [VIdentityLevel (o_IdentityLevel ord)];
               builder = Where builder ''CreatorIdentityLevel <= ?''
                           [VUint64 (dwo_CreatorIdentityLevel order)];
               builder = matchingBenchmarksWhere dp benchOp builder 0 (o_Benchmarks ord);
               builder = builderWithSortings builder
                           [\<lparr> so_Field = ''Price'', so_Order = sortingOrder \<rparr>]
           in Inr builder))"

text \<open>\<^verbatim>\<open>GetMatchingOrders\<close> (sql.go, lines 388 to 462). A row that fails to decode and an
  iteration error are both reported as \<^verbatim>\<open>status.Error(codes.Internal, ...)\<close>.\<close>

definition GetMatchingOrders ::
  "deps \<Rightarrow> sqlStorage \<Rightarrow> queryConn \<Rightarrow> MatchingOrdersRequest \<Rightarrow> error + (DWHOrder list \<times> 64 word)" where
  "GetMatchingOrders dp c conn r =
     bindE (wrapE (GetOrderByID dp c conn (mr_Id r)) ''failed to GetOrderByID'')
       (\<lambda>order.
     bindE (matchingOrdersBuilder dp order)
       (\<lambda>builder.
          let (query, args) = ToSql (builderWithOffsetLimit builder (mr_Limit r) (mr_Offset r))
          in case runQuery conn (Join (OrderColumns (st_tablesInfo c)) '', '') (mr_WithCount r)
                    query args of
               Inl err \<Rightarrow> Inl (Wrap err ''failed to run Query'')
             | Inr (rows, count) \<Rightarrow>
                 (case decodeRows (decodeOrder dp (st_numBenchmarks c)) (fst rows) of
                    Inl (Panic p) \<Rightarrow> Inl (Panic p)
                  | Inl (Err _) \<Rightarrow> Inl (Err ''failed to GetMatchingOrders'')
                  | Inr orders \<Rightarrow>
                      (case snd rows of
                         Some err \<Rightarrow> Inl (Err ''failed to GetMatchingOrders'')
                       | None \<Rightarrow> Inr (orders, count)))))"

subsection \<open>InsertDeal\<close>

text \<open>\<^verbatim>\<open>GetDealChangeRequestsByID\<close> (sql.go, lines 586 to 611).\<close>

definition GetDealChangeRequestsByID ::
  "deps \<Rightarrow> sqlStorage \<Rightarrow> queryConn \<Rightarrow> int \<Rightarrow> error + DealChangeRequest list" where
  "GetDealChangeRequestsByID dp c conn changeRequestID =
     (let (query, args) =
            ToSql (Where (From (Select (DealChangeRequestColumns (st_tablesInfo c)))
                            ''DealChangeRequests'')
                     ''DealID = ?'' [VString (Int_String changeRequestID)])
      in case Query conn query args of
           Inl err \<Rightarrow> Inl (Wrap err ''failed to selectDealChangeRequests'')
         | Inr rows \<Rightarrow>
             bindE (decodeRows
                      (\<lambda>row. wrapE (decodeDealChangeRequest dp row)
                                ''failed to decodeDealChangeRequest'') (fst rows))
               (\<lambda>out. case snd rows of Some err \<Rightarrow> Inl err | None \<Rightarrow> Inr out))"

text \<open>
  The argument list \<^verbatim>\<open>InsertDeal\<close> builds (sql.go, lines 54 to 92). The flag is set by
  \<^verbatim>\<open>
  var hasActiveChangeRequests bool
  if _, err := c.GetDealChangeRequestsByID(conn, deal.Id.Unwrap()); err == nil {
      hasActiveChangeRequests = true
  }
  \<close>
  and is the twentieth value, the column \<^verbatim>\<open>ActiveChangeRequest\<close>. Reading a benchmark
  beyond the deal's values panics.
\<close>

definition InsertDeal_allColumns ::
  "deps \<Rightarrow> sqlStorage \<Rightarrow> queryConn \<Rightarrow> Deal \<Rightarrow> error + sqlval list" where
  "InsertDeal_allColumns dp c conn deal =
     bindE (wrapE (GetOrderByID dp c conn (d_AskID deal)) ''failed to getOrderDetails (Ask)'')
       (\<lambda>ask.
     bindE (wrapE (GetOrderByID dp c conn (d_BidID deal)) ''failed to getOrderDetails (Bid)'')
       (\<lambda>bid.
     bindE (case GetDealChangeRequestsByID dp c conn (d_Id deal) of
              Inr _ \<Rightarrow> Inr True
            | Inl (Err _) \<Rightarrow> Inr False
            | Inl (Panic p) \<Rightarrow> Inl (Panic p))
       (\<lambda>hasActiveChangeRequests.
     bindE (PaddedString (d_Price deal)) (\<lambda>price.
     bindE (PaddedString (d_BlockedBalance deal)) (\<lambda>blockedBalance.
     bindE (PaddedString (d_TotalPayout deal)) (\<lambda>totalPayout.
       let allColumns =
             [VString (Int_String (d_Id deal)),
              VString (dep_Hex dp (d_SupplierID deal)),
              VString (dep_Hex dp (d_ConsumerID deal)),
              VString (dep_Hex dp (d_MasterID deal)),
              VString (Int_String (d_AskID deal)),
              VString (Int_String (d_BidID deal)),
              VUint64 (d_Duration deal),
              VString price,
              VInt64 (d_StartTime deal),
              VInt64 (d_EndTime deal),
              VUint64 (scast (d_Status deal)),
              VString blockedBalance,
              VString totalPayout,
              VInt64 (d_LastBillTS deal),
              VUint64 (o_Netflags (dwo_Order ask)),
              VIdentityLevel (o_IdentityLevel (dwo_Order ask)),
              VIdentityLevel (o_IdentityLevel (dwo_Order bid)),
              VBytes (dwo_CreatorCertificates ask),
              VBytes (dwo_CreatorCertificates bid),
              VBool hasActiveChangeRequests]
       in if unat (st_numBenchmarks c) \<le> length (d_Benchmarks deal)
          then Inr (allColumns
                      @ map VUint64 (take (unat (st_numBenchmarks c)) (d_Benchmarks deal)))
          else Inl (Panic ''index out of range'')))))))"

text \<open>\<^verbatim>\<open>InsertDeal\<close> (sql.go, lines 53 to 96): the error of building the arguments, or
  that of executing the insert statement with them.\<close>

definition InsertDeal :: "deps \<Rightarrow> sqlStorage \<Rightarrow> queryConn \<Rightarrow> Deal \<Rightarrow> error option" where
  "InsertDeal dp c conn deal =
     (case InsertDeal_allColumns dp c conn deal of
        Inl err \<Rightarrow> Some err
      | Inr allColumns \<Rightarrow> Exec conn (st_insertDeal c) allColumns)"


section \<open>Auxiliary notions for the proofs\<close>


section \<open>Example inputs\<close>

text \<open>
  A concrete choice of the library functions and a few concrete inputs, on which the
  model is run: addresses and benchmark indices are written in decimal.
\<close>

definition example_deps :: deps where
  "example_deps =
     \<lparr> dep_Hex = (\<lambda>a. ''0x'' @ nat_digits (unat a)),
       dep_HexToAddress = (\<lambda>s. of_nat (digits_value (drop 2 s))),
       dep_getBenchmarkColumn = (\<lambda>i. ''Benchmark'' @ nat_digits (unat i)),
       dep_SetStringFailed = (\<lambda>s. 0) \<rparr>"

text \<open>An active order of the given type by author 9, priced 100, naming the given
  counterparty (0 for none).\<close>

definition example_order :: "OrderType \<Rightarrow> address \<Rightarrow> DWHOrder" where
  "example_order t cp =
     \<lparr> dwo_Order =
         \<lparr> o_Id = 1, o_DealID = 0, o_OrderType = t,
           o_OrderStatus = OrderStatus_ORDER_ACTIVE, o_AuthorID = 9,
           o_CounterpartyID = cp, o_Duration = 3600, o_Price = 100, o_Netflags = 3,
           o_IdentityLevel = 1, o_Blacklist = [], o_Tag = [], o_FrozenSum = 0,
           o_Benchmarks = [10] \<rparr>,
       dwo_CreatedTS = 0, dwo_CreatorIdentityLevel = 1, dwo_CreatorName = [],
       dwo_CreatorCountry = [], dwo_CreatorCertificates = [] \<rparr>"

text \<open>A stored ask by author 5 at price 50 that meets every requirement of the bid
  \<open>example_order OrderType_BID cp\<close> except, possibly, through its own counterparty
  field, which is the parameter.\<close>

definition example_row :: "string \<Rightarrow> row" where
  "example_row counterparty =
     map_of [(''Type'', VInt64 2), (''Status'', VInt64 2),
             (''Price'', VString (replicate 78 CHR ''0'' @ ''50'')),
             (''Duration'', VInt64 7200), (''AuthorID'', VString ''0x5''),
             (''CounterpartyID'', VString counterparty), (''Netflags'', VInt64 7),
             (''IdentityLevel'', VInt64 1), (''CreatorIdentityLevel'', VInt64 1),
             (''Benchmark0'', VInt64 20)]"



section \<open>Padded strings: width and order\<close>

declare nat_digits.simps [simp del]

lemma digit_char_less: "a < 10 \<Longrightarrow> b < 10 \<Longrightarrow> digit_char a < digit_char b \<longleftrightarrow> a < b"
  by (simp add: digit_char_def less_char_def)

lemma length_fixed [simp]: "length (fixed w n) = w"
  by (induction w arbitrary: n) simp_all

lemma digit_char_0: "digit_char 0 = CHR ''0''"
  unfolding digit_char_def by code_simp

lemma fixed_zero: "fixed w 0 = replicate w CHR ''0''"
  by (induction w) (simp_all add: digit_char_0 replicate_append_same)

lemma append_less_same_length:
  "length xs = length ys \<Longrightarrow> (xs @ us < ys @ vs) \<longleftrightarrow> (xs < ys \<or> (xs = ys \<and> us < vs))"
  by (induction xs ys rule: list_induct2) auto

lemma fixed_strict_mono: "m < n \<Longrightarrow> n < 10 ^ w \<Longrightarrow> fixed w m < fixed w n"
proof (induction w arbitrary: m n)
  case 0
  then show ?case by simp
next
  case (Suc w)
  have nd: "n div 10 < 10 ^ w" using Suc.prems(2) by (simp add: less_mult_imp_div_less mult.commute)
  have "m div 10 \<le> n div 10" using Suc.prems(1) by (simp add: div_le_mono)
  then consider (lt) "m div 10 < n div 10" | (eq) "m div 10 = n div 10" by linarith
  then show ?case
  proof cases
    case lt
    then have "fixed w (m div 10) < fixed w (n div 10)" using Suc.IH nd by blast
    then show ?thesis by (simp add: append_less_same_length)
  next
    case eq
    have "m mod 10 < n mod 10"
      using eq Suc.prems(1) by (metis div_mult_mod_eq nat_add_left_cancel_less)
    then have "digit_char (m mod 10) < digit_char (n mod 10)"
      by (simp add: digit_char_less)
    then show ?thesis using eq by (simp add: append_less_same_length)
  qed
qed

lemma nat_digits_length_pos: "0 < length (nat_digits n)"
  by (subst nat_digits.simps) simp

lemma pad_eq_fixed:
  "length (nat_digits n) \<le> w \<Longrightarrow>
   replicate (w - length (nat_digits n)) CHR ''0'' @ nat_digits n = fixed w n"
proof (induction n arbitrary: w rule: nat_digits.induct)
  case (1 n)
  from "1.prems" nat_digits_length_pos[of n] obtain w' where w: "w = Suc w'"
    by (cases w) auto
  show ?case
  proof (cases "n < 10")
    case True
    then show ?thesis using w by (simp add: nat_digits.simps[of n] fixed_zero)
  next
    case False
    have len: "length (nat_digits n) = Suc (length (nat_digits (n div 10)))"
      using False by (simp add: nat_digits.simps[of n])
    then have "length (nat_digits (n div 10)) \<le> w'" using "1.prems" w by simp
    then have "replicate (w' - length (nat_digits (n div 10))) CHR ''0'' @ nat_digits (n div 10) = fixed w' (n div 10)"
      using "1.IH" False by blast
    then show ?thesis using False w len by (simp add: nat_digits.simps[of n])
  qed
qed

lemma nat_digits_length_bound: "length (nat_digits n) \<le> w \<Longrightarrow> n < 10 ^ w"
proof (induction n arbitrary: w rule: nat_digits.induct)
  case (1 n)
  from "1.prems" nat_digits_length_pos[of n] obtain w' where w: "w = Suc w'"
    by (cases w) auto
  show ?case
  proof (cases "n < 10")
    case True
    have "(10::nat) \<le> 10 ^ Suc w'" by (simp add: self_le_power)
    then have "n < 10 ^ Suc w'" using True by (rule_tac less_le_trans)
    then show ?thesis using w by simp
  next
    case False
    have "length (nat_digits (n div 10)) \<le> w'"
      using False "1.prems" w by (simp add: nat_digits.simps[of n])
    then have "n div 10 < 10 ^ w'" using "1.IH" False by blast
    then show ?thesis using w by (simp add: div_less_iff_less_mult mult.commute)
  qed
qed

lemma nat_digits_length_le: "n < 10 ^ w \<Longrightarrow> 0 < w \<Longrightarrow> length (nat_digits n) \<le> w"
proof (induction n arbitrary: w rule: nat_digits.induct)
  case (1 n)
  from "1.prems" obtain w' where w: "w = Suc w'" by (cases w) auto
  show ?case
  proof (cases "n < 10")
    case True
    then show ?thesis using w by (simp add: nat_digits.simps[of n])
  next
    case False
    have "w' \<noteq> 0" using False "1.prems" w by (cases w') auto
    moreover have "n div 10 < 10 ^ w'" using "1.prems" w by (simp add: div_less_iff_less_mult mult.commute)
    ultimately have "length (nat_digits (n div 10)) \<le> w'" using "1.IH" False by blast
    then show ?thesis using False w by (simp add: nat_digits.simps[of n])
  qed
qed
lemma nat_digits_mono_length:
  "m \<le> n \<Longrightarrow> length (nat_digits n) \<le> w \<Longrightarrow> length (nat_digits m) \<le> w"
proof -
  assume mn: "m \<le> n" and len: "length (nat_digits n) \<le> w"
  have "0 < w" using len nat_digits_length_pos[of n] by linarith
  moreover have "m < 10 ^ w" using nat_digits_length_bound[OF len] mn by linarith
  ultimately show ?thesis by (rule_tac nat_digits_length_le)
qed

lemma padded_nonneg:
  assumes "0 \<le> x" and "length (Int_String x) \<le> 80"
  shows "BigIntToPaddedString x = Inr (fixed 80 (nat x))"
proof -
  have raw: "Int_String x = nat_digits (nat x)" using assms(1) by (simp add: Int_String_def)
  have len: "length (nat_digits (nat x)) \<le> 80" using assms(2) raw by simp
  have "nat (80 - int (length (nat_digits (nat x)))) = 80 - length (nat_digits (nat x))"
    by simp
  then show ?thesis
    using len pad_eq_fixed[OF len]
    by (simp add: BigIntToPaddedString_def FormattedBigIntLength_def raw Let_def)
qed

lemma padded_too_long:
  "80 < length (Int_String x) \<Longrightarrow>
   BigIntToPaddedString x = Inl (Panic ''makeslice: len out of range'')"
  by (simp add: BigIntToPaddedString_def FormattedBigIntLength_def Let_def)

lemma padded_returns_iff:
  "(\<exists>s. BigIntToPaddedString x = Inr s) \<longleftrightarrow> length (Int_String x) \<le> 80"
  by (auto simp add: BigIntToPaddedString_def FormattedBigIntLength_def Let_def)

lemma padded_length:
  "BigIntToPaddedString x = Inr s \<Longrightarrow> length s = 80"
  by (auto simp add: BigIntToPaddedString_def FormattedBigIntLength_def Let_def
      split: if_splits)

lemma nat_digits_length_gt: "10 ^ w \<le> n \<Longrightarrow> w < length (nat_digits n)"
  using nat_digits_length_bound[of n w] by fastforce

lemma Int_String_length_pow: "w < length (Int_String (10 ^ w))"
proof -
  have e: "nat ((10::int) ^ w) = 10 ^ w" by (simp add: nat_power_eq)
  have "w < length (nat_digits (nat ((10::int) ^ w)))"
    unfolding e by (rule nat_digits_length_gt) simp
  then show ?thesis by (simp add: Int_String_def)
qed

lemma Int_String_length_neg_pow: "Suc w < length (Int_String (- (10 ^ w)))"
proof -
  have e: "nat ((10::int) ^ w) = 10 ^ w" by (simp add: nat_power_eq)
  have "w < length (nat_digits (nat ((10::int) ^ w)))"
    unfolding e by (rule nat_digits_length_gt) simp
  then show ?thesis by (simp add: Int_String_def)
qed

text \<open>
  Claim C1. For non-negative integers \<open>x \<le> y\<close> whose decimal representation has at
  most 80 digits, \<open>BigIntToPaddedString\<close> returns for both, each result is 80
  characters wide, and the result for \<open>x\<close> is lexicographically (bytewise) at most the
  result for \<open>y\<close>.
\<close>

theorem BigIntToPaddedString_order:
  assumes "0 \<le> x" and "x \<le> y" and "length (Int_String y) \<le> 80"
  shows "\<exists>sx sy. BigIntToPaddedString x = Inr sx \<and> BigIntToPaddedString y = Inr sy
           \<and> sx \<le> sy \<and> length sx = 80 \<and> length sy = 80"
proof -
  have y0: "0 \<le> y" using assms(1,2) by simp
  have rawy: "Int_String y = nat_digits (nat y)" using y0 by (simp add: Int_String_def)
  have rawx: "Int_String x = nat_digits (nat x)" using assms(1) by (simp add: Int_String_def)
  have leny: "length (nat_digits (nat y)) \<le> 80" using assms(3) rawy by simp
  have nle: "nat x \<le> nat y" using assms(2) by simp
  have lenx: "length (Int_String x) \<le> 80"
    using nat_digits_mono_length[OF nle leny] rawx by simp
  have px: "BigIntToPaddedString x = Inr (fixed 80 (nat x))"
    using padded_nonneg[OF assms(1) lenx] .
  have py: "BigIntToPaddedString y = Inr (fixed 80 (nat y))"
    using padded_nonneg[OF y0 assms(3)] .
  have ybound: "nat y < 10 ^ 80" using nat_digits_length_bound[OF leny] .
  have "fixed 80 (nat x) \<le> fixed 80 (nat y)"
  proof (cases "nat x = nat y")
    case True
    then show ?thesis by simp
  next
    case False
    then have "nat x < nat y" using le_neq_implies_less[OF nle] by blast
    then have "fixed 80 (nat x) < fixed 80 (nat y)" using ybound by (rule fixed_strict_mono)
    then show ?thesis by simp
  qed
  then show ?thesis using px py by simp
qed

theorem BigIntToPaddedString_order_witness:
  "(0::int) \<le> 999 \<and> (999::int) \<le> 1000 \<and> length (Int_String 1000) \<le> 80 \<and>
   (\<exists>sx sy. BigIntToPaddedString 999 = Inr sx \<and> BigIntToPaddedString 1000 = Inr sy
           \<and> sx \<le> sy \<and> length sx = 80 \<and> length sy = 80)"
proof -
  have h: "length (Int_String 1000) \<le> 80" by code_simp
  have a: "(0::int) \<le> 999" and b: "(999::int) \<le> 1000" by simp_all
  show ?thesis using BigIntToPaddedString_order[OF a b h] a b h by blast
qed

text \<open>
  Claim C9. \<open>BigIntToPaddedString\<close> returns exactly for the integers whose decimal
  representation (a minus sign included) has at most 80 characters: a non-negative
  input of at most 80 digits gives a string of exactly 80 characters, and an input whose
  representation is longer than 80 characters makes the padding length negative, so the
  function panics instead of returning.
\<close>

theorem BigIntToPaddedString_total_only_within_width:
  "(0 \<le> x \<and> length (Int_String x) \<le> 80 \<longrightarrow>
      (\<exists>s. BigIntToPaddedString x = Inr s \<and> length s = 80))
   \<and> (80 < length (Int_String x) \<longrightarrow>
      FormattedBigIntLength - int (length (Int_String x)) < 0
      \<and> (\<exists>msg. BigIntToPaddedString x = Inl (Panic msg)))
   \<and> ((\<exists>s. BigIntToPaddedString x = Inr s) \<longleftrightarrow> length (Int_String x) \<le> 80)"
proof (intro conjI impI)
  assume a: "0 \<le> x \<and> length (Int_String x) \<le> 80"
  then have "BigIntToPaddedString x = Inr (fixed 80 (nat x))" by (simp add: padded_nonneg)
  then show "\<exists>s. BigIntToPaddedString x = Inr s \<and> length s = 80" by simp
next
  assume "80 < length (Int_String x)"
  then show "FormattedBigIntLength - int (length (Int_String x)) < 0"
    by (simp add: FormattedBigIntLength_def)
next
  assume "80 < length (Int_String x)"
  then show "\<exists>msg. BigIntToPaddedString x = Inl (Panic msg)"
    by (simp add: padded_too_long)
next
  show "(\<exists>s. BigIntToPaddedString x = Inr s) \<longleftrightarrow> length (Int_String x) \<le> 80"
    by (rule padded_returns_iff)
qed

theorem BigIntToPaddedString_total_only_within_width_witness:
  "((0::int) \<le> 7 \<and> length (Int_String 7) \<le> 80
      \<and> (\<exists>s. BigIntToPaddedString 7 = Inr s \<and> length s = 80))
   \<and> (80 < length (Int_String (10 ^ 80))
      \<and> (\<exists>msg. BigIntToPaddedString (10 ^ 80) = Inl (Panic msg)))
   \<and> (80 < length (Int_String (- (10 ^ 79)))
      \<and> (\<exists>msg. BigIntToPaddedString (- (10 ^ 79)) = Inl (Panic msg)))"
proof -
  have h0: "(0::int) \<le> 7" by simp
  have h1: "length (Int_String 7) \<le> 80" by code_simp
  have h2: "80 < length (Int_String (10 ^ 80))" by (rule Int_String_length_pow)
  have h3: "80 < length (Int_String (- (10 ^ 79)))"
    using Int_String_length_neg_pow[of 79] by simp
  show ?thesis
    using BigIntToPaddedString_total_only_within_width[of 7]
      BigIntToPaddedString_total_only_within_width[of "10 ^ 80"]
      BigIntToPaddedString_total_only_within_width[of "- (10 ^ 79)"] h0 h1 h2 h3
    by blast
qed

section \<open>Netflags predicates\<close>

lemma superset_iff: "(f OR NOT v = - 1) \<longleftrightarrow> (f AND v = v)" for f v :: "64 word"
  by (auto simp add: bit_eq_iff bit_simps)

lemma subset_iff_word: "(v OR NOT f = - 1) \<longleftrightarrow> (f AND v = f)" for f v :: "64 word"
  by (auto simp add: bit_eq_iff bit_simps)

lemma split_words_at_least:
  "split_words ''Netflags | ~ ? = -1'' = [''Netflags'', ''|'', ''~'', ''?'', ''='', ''-1'']"
  by simp

lemma split_words_at_most:
  "split_words ''? | ~Netflags = -1'' = [''?'', ''|'', ''~Netflags'', ''='', ''-1'']"
  by simp

lemma split_words_exact: "split_words ''Netflags = ?'' = [''Netflags'', ''='', ''?'']"
  by simp

lemma holds_at_least:
  "r ''Netflags'' = Some (VUint64 f) \<Longrightarrow>
   holds (Expr ''Netflags | ~ ? = -1'' [VUint64 v]) r \<longleftrightarrow> f OR NOT v = - 1"
  by (simp only: holds.simps split_words_at_least) (simp add: holds_expr_def)

lemma holds_at_most:
  "r ''Netflags'' = Some (VUint64 f) \<Longrightarrow>
   holds (Expr ''? | ~Netflags = -1'' [VUint64 v]) r \<longleftrightarrow> v OR NOT f = - 1"
  by (simp only: holds.simps split_words_at_most) (simp add: holds_expr_def)

lemma holds_exact:
  "r ''Netflags'' = Some (VUint64 f) \<Longrightarrow>
   holds (Expr ''Netflags = ?'' [VUint64 v]) r \<longleftrightarrow> f = v"
  by (simp only: holds.simps split_words_exact) (simp add: holds_expr_def compare_vals_def)

lemma selects_Where:
  "selects (Where b pred args) r \<longleftrightarrow> selects b r \<and> holds (Expr pred args) r"
  by (simp add: selects_def Where_def)

text \<open>
  Claim C2. On a row whose stored flags are \<open>f\<close>, the predicate \<open>newNetflagsWhere\<close>
  adds for "at least" is \<open>f | ~v = all-ones\<close>, which holds exactly when \<open>f\<close> is a
  bitwise superset of \<open>v\<close>; the one for "at most" is \<open>v | ~f = all-ones\<close>, which holds
  exactly when \<open>f\<close> is a bitwise subset of \<open>v\<close>; every other operator gives the exact
  match \<open>f = v\<close>.
\<close>

theorem newNetflagsWhere_bitwise:
  assumes "r ''Netflags'' = Some (VUint64 f)"
  shows "(selects (newNetflagsWhere b CmpOp_GTE v) r \<longleftrightarrow> selects b r \<and> f OR NOT v = - 1)
       \<and> (f OR NOT v = - 1 \<longleftrightarrow> f AND v = v)
       \<and> (selects (newNetflagsWhere b CmpOp_LTE v) r \<longleftrightarrow> selects b r \<and> v OR NOT f = - 1)
       \<and> (v OR NOT f = - 1 \<longleftrightarrow> f AND v = f)
       \<and> (operator \<noteq> CmpOp_GTE \<and> operator \<noteq> CmpOp_LTE \<longrightarrow>
            (selects (newNetflagsWhere b operator v) r \<longleftrightarrow> selects b r \<and> f = v))"
proof (intro conjI impI)
  show "selects (newNetflagsWhere b CmpOp_GTE v) r \<longleftrightarrow> selects b r \<and> f OR NOT v = - 1"
    using assms by (simp add: newNetflagsWhere_def selects_Where holds_at_least del: holds.simps)
  show "f OR NOT v = - 1 \<longleftrightarrow> f AND v = v" by (rule superset_iff)
  show "selects (newNetflagsWhere b CmpOp_LTE v) r \<longleftrightarrow> selects b r \<and> v OR NOT f = - 1"
    using assms
    by (simp add: newNetflagsWhere_def CmpOp_GTE_def CmpOp_LTE_def selects_Where holds_at_most
        del: holds.simps)
  show "v OR NOT f = - 1 \<longleftrightarrow> f AND v = f" by (rule subset_iff_word)
next
  assume "operator \<noteq> CmpOp_GTE \<and> operator \<noteq> CmpOp_LTE"
  then show "selects (newNetflagsWhere b operator v) r \<longleftrightarrow> selects b r \<and> f = v"
    using assms by (simp add: newNetflagsWhere_def selects_Where holds_exact del: holds.simps)
qed

theorem newNetflagsWhere_bitwise_witness:
  "(Map.empty(''Netflags'' \<mapsto> VUint64 7)) ''Netflags'' = Some (VUint64 7)
   \<and> selects (newNetflagsWhere (From (Select [''*'']) ''Orders'') CmpOp_GTE 3)
        (Map.empty(''Netflags'' \<mapsto> VUint64 7))
   \<and> \<not> selects (newNetflagsWhere (From (Select [''*'']) ''Orders'') CmpOp_LTE 3)
        (Map.empty(''Netflags'' \<mapsto> VUint64 7))
   \<and> CmpOp_EQ \<noteq> CmpOp_GTE \<and> CmpOp_EQ \<noteq> CmpOp_LTE
   \<and> \<not> selects (newNetflagsWhere (From (Select [''*'']) ''Orders'') CmpOp_EQ 3)
        (Map.empty(''Netflags'' \<mapsto> VUint64 7))"
proof -
  let ?r = "Map.empty(''Netflags'' \<mapsto> VUint64 7)"
  let ?b = "From (Select [''*'']) ''Orders''"
  have h: "?r ''Netflags'' = Some (VUint64 7)" by simp
  have b: "selects ?b ?r" by (simp add: selects_def From_def Select_def)
  have ne: "CmpOp_EQ \<noteq> CmpOp_GTE \<and> CmpOp_EQ \<noteq> CmpOp_LTE"
    by (simp add: CmpOp_EQ_def CmpOp_GTE_def CmpOp_LTE_def)
  have w1: "(7::64 word) AND 3 = 3" by simp
  have w2: "(7::64 word) AND 3 \<noteq> 7" by simp
  have w3: "(7::64 word) \<noteq> 3" by simp
  show ?thesis
    using newNetflagsWhere_bitwise[of ?r 7 ?b 3 CmpOp_EQ] h b ne w1 w2 w3 by blast
qed

section \<open>The queries of GetOrders and GetMatchingOrders\<close>

lemma WhereParts_Where [simp]: "sb_WhereParts (Where b p a) = sb_WhereParts b @ [Expr p a]"
  by (simp add: Where_def)

lemma WhereParts_WhereEq [simp]: "sb_WhereParts (WhereEq b col vs) = sb_WhereParts b @ [Eq col vs]"
  by (simp add: WhereEq_def)

lemma OrderBys_Where [simp]: "sb_OrderBys (Where b p a) = sb_OrderBys b"
  by (simp add: Where_def)

lemma OrderBys_WhereEq [simp]: "sb_OrderBys (WhereEq b col vs) = sb_OrderBys b"
  by (simp add: WhereEq_def)

lemma WhereParts_From_Select [simp]: "sb_WhereParts (From (Select cols) t) = []"
  by (simp add: From_def Select_def)

lemma OrderBys_From_Select [simp]: "sb_OrderBys (From (Select cols) t) = []"
  by (simp add: From_def Select_def)

lemma WhereParts_builderWithSortings [simp]:
  "sb_WhereParts (builderWithSortings b s) = sb_WhereParts b"
  by (simp add: builderWithSortings_def OrderBy_def)

lemma OrderBys_builderWithSortings:
  "sb_OrderBys (builderWithSortings b s) =
   sb_OrderBys b @ map (\<lambda>sort. so_Field sort @ '' '' @ SortingOrder_name (so_Order sort)) s"
  by (simp add: builderWithSortings_def OrderBy_def)

lemma WhereParts_newNetflagsWhere:
  "\<exists>text. sb_WhereParts (newNetflagsWhere b operator v) = sb_WhereParts b @ [Expr text [VUint64 v]]"
  by (simp add: newNetflagsWhere_def)

lemma OrderBys_newNetflagsWhere [simp]:
  "sb_OrderBys (newNetflagsWhere b operator v) = sb_OrderBys b"
  by (simp add: newNetflagsWhere_def)

lemma take_newNetflagsWhere [simp]:
  "n \<le> length (sb_WhereParts b) \<Longrightarrow>
   take n (sb_WhereParts (newNetflagsWhere b operator v)) = take n (sb_WhereParts b)"
  by (simp add: newNetflagsWhere_def)

lemma length_newNetflagsWhere [simp]:
  "length (sb_WhereParts (newNetflagsWhere b operator v)) = Suc (length (sb_WhereParts b))"
  by (simp add: newNetflagsWhere_def)

lemma matchingBenchmarksWhere_parts:
  "\<exists>ws. sb_WhereParts (matchingBenchmarksWhere dp benchOp b i vs) = sb_WhereParts b @ ws
        \<and> length ws = length vs"
proof (induction vs arbitrary: b i)
  case Nil
  then show ?case by simp
next
  case (Cons v vs)
  from Cons.IH[of "Where b (dep_getBenchmarkColumn dp (of_nat i) @ '' '' @ benchOp @ '' ?'') [VUint64 v]" "Suc i"]
  show ?case by auto
qed

lemma OrderBys_matchingBenchmarksWhere [simp]:
  "sb_OrderBys (matchingBenchmarksWhere dp benchOp b i vs) = sb_OrderBys b"
  by (induction vs arbitrary: b i) simp_all

lemma take_matchingBenchmarksWhere [simp]:
  "n \<le> length (sb_WhereParts b) \<Longrightarrow>
   take n (sb_WhereParts (matchingBenchmarksWhere dp benchOp b i vs)) = take n (sb_WhereParts b)"
  using matchingBenchmarksWhere_parts[of dp benchOp b i vs] by auto

lemma matchingOrdersBuilder_head:
  assumes "matchingOrdersBuilder dp order = Inr b"
  shows "\<exists>p. PaddedString (o_Price (dwo_Order order)) = Inr p \<and>
     take 3 (sb_WhereParts b) =
       [Expr ''Type = ?'' [VOrderType (if o_OrderType (dwo_Order order) = OrderType_BID
                                          then OrderType_ASK else OrderType_BID)],
        Expr ''Status = ?'' [VOrderStatus OrderStatus_ORDER_ACTIVE],
        Expr (''Price '' @ (if o_OrderType (dwo_Order order) = OrderType_BID then lte else gte) @ '' ?'')
          [VString p]] \<and>
     sb_OrderBys b =
       [''Price '' @ SortingOrder_name (if o_OrderType (dwo_Order order) = OrderType_BID
                                          then SortingOrder_Asc else SortingOrder_Desc)]"
proof (cases "PaddedString (o_Price (dwo_Order order))")
  case (Inl e)
  then show ?thesis using assms by (simp add: matchingOrdersBuilder_def Let_def bindE_def split: if_splits)
next
  case (Inr p)
  then show ?thesis using assms
    by (auto simp add: matchingOrdersBuilder_def Let_def bindE_def OrderBys_builderWithSortings
        split: if_splits)
qed


















lemma matchingOrdersBuilder_returns:
  "PaddedString (o_Price (dwo_Order order)) = Inr p \<Longrightarrow>
   \<exists>b. matchingOrdersBuilder dp order = Inr b"
  by (simp add: matchingOrdersBuilder_def Let_def bindE_def)

lemma PaddedString_small: "0 \<le> x \<Longrightarrow> x < 1000 \<Longrightarrow> \<exists>p. PaddedString x = Inr p"
proof -
  assume a: "0 \<le> x" "x < 1000"
  then have "nat x < 10 ^ 80" by simp
  then have "length (nat_digits (nat x)) \<le> 80" by (rule nat_digits_length_le) simp
  then have "length (Int_String x) \<le> 80" using a by (simp add: Int_String_def)
  then show ?thesis using a padded_nonneg by (simp add: PaddedString_def)
qed

lemma OrderType_distinct: "OrderType_ASK \<noteq> OrderType_BID"
  by (simp add: OrderType_ASK_def OrderType_BID_def)

text \<open>
  Claim C3. In the query \<open>GetMatchingOrders\<close> builds for a reference order, the first
  three predicates are the type, the status and the price: the status is always the
  active one; for a bid the type is ask, the price predicate is \<open>Price <= ?\<close> with the
  padded price of the order, and the results are ordered by \<open>Price Asc\<close>; for an ask the
  type is bid, the predicate is \<open>Price >= ?\<close> and the order is \<open>Price Desc\<close>.
\<close>

theorem GetMatchingOrders_type_status_price:
  assumes "matchingOrdersBuilder dp order = Inr b"
  shows "\<exists>p. PaddedString (o_Price (dwo_Order order)) = Inr p \<and>
     sb_WhereParts b ! 1 = Expr ''Status = ?'' [VOrderStatus OrderStatus_ORDER_ACTIVE] \<and>
     (o_OrderType (dwo_Order order) = OrderType_BID \<longrightarrow>
        take 3 (sb_WhereParts b) =
          [Expr ''Type = ?'' [VOrderType OrderType_ASK],
           Expr ''Status = ?'' [VOrderStatus OrderStatus_ORDER_ACTIVE],
           Expr ''Price <= ?'' [VString p]] \<and>
        sb_OrderBys b = [''Price Asc'']) \<and>
     (o_OrderType (dwo_Order order) = OrderType_ASK \<longrightarrow>
        take 3 (sb_WhereParts b) =
          [Expr ''Type = ?'' [VOrderType OrderType_BID],
           Expr ''Status = ?'' [VOrderStatus OrderStatus_ORDER_ACTIVE],
           Expr ''Price >= ?'' [VString p]] \<and>
        sb_OrderBys b = [''Price Desc''])"
proof -
  from matchingOrdersBuilder_head[OF assms] obtain p where
    p: "PaddedString (o_Price (dwo_Order order)) = Inr p" and
    t: "take 3 (sb_WhereParts b) =
       [Expr ''Type = ?'' [VOrderType (if o_OrderType (dwo_Order order) = OrderType_BID
                                          then OrderType_ASK else OrderType_BID)],
        Expr ''Status = ?'' [VOrderStatus OrderStatus_ORDER_ACTIVE],
        Expr (''Price '' @ (if o_OrderType (dwo_Order order) = OrderType_BID then lte else gte) @ '' ?'')
          [VString p]]" and
    ob: "sb_OrderBys b =
       [''Price '' @ SortingOrder_name (if o_OrderType (dwo_Order order) = OrderType_BID
                                          then SortingOrder_Asc else SortingOrder_Desc)]"
    by blast
  have "take 3 (sb_WhereParts b) ! 1 = sb_WhereParts b ! 1" by simp
  then have st: "sb_WhereParts b ! 1 = Expr ''Status = ?'' [VOrderStatus OrderStatus_ORDER_ACTIVE]"
    using t by simp
  have bid: "o_OrderType (dwo_Order order) = OrderType_BID \<longrightarrow>
        take 3 (sb_WhereParts b) =
          [Expr ''Type = ?'' [VOrderType OrderType_ASK],
           Expr ''Status = ?'' [VOrderStatus OrderStatus_ORDER_ACTIVE],
           Expr ''Price <= ?'' [VString p]] \<and>
        sb_OrderBys b = [''Price Asc'']"
    using t ob by (simp add: lte_def SortingOrder_name_def)
  have ask: "o_OrderType (dwo_Order order) = OrderType_ASK \<longrightarrow>
        take 3 (sb_WhereParts b) =
          [Expr ''Type = ?'' [VOrderType OrderType_BID],
           Expr ''Status = ?'' [VOrderStatus OrderStatus_ORDER_ACTIVE],
           Expr ''Price >= ?'' [VString p]] \<and>
        sb_OrderBys b = [''Price Desc'']"
    using t ob OrderType_distinct
    by (simp add: gte_def SortingOrder_name_def SortingOrder_Asc_def SortingOrder_Desc_def)
  show ?thesis using p st bid ask by blast
qed

theorem GetMatchingOrders_type_status_price_witness:
  "(\<exists>b p. matchingOrdersBuilder example_deps (example_order OrderType_BID 0) = Inr b \<and>
      o_OrderType (dwo_Order (example_order OrderType_BID 0)) = OrderType_BID \<and>
      take 3 (sb_WhereParts b) =
          [Expr ''Type = ?'' [VOrderType OrderType_ASK],
           Expr ''Status = ?'' [VOrderStatus OrderStatus_ORDER_ACTIVE],
           Expr ''Price <= ?'' [VString p]] \<and>
      sb_OrderBys b = [''Price Asc''])
   \<and> (\<exists>b p. matchingOrdersBuilder example_deps (example_order OrderType_ASK 0) = Inr b \<and>
      o_OrderType (dwo_Order (example_order OrderType_ASK 0)) = OrderType_ASK \<and>
      take 3 (sb_WhereParts b) =
          [Expr ''Type = ?'' [VOrderType OrderType_BID],
           Expr ''Status = ?'' [VOrderStatus OrderStatus_ORDER_ACTIVE],
           Expr ''Price >= ?'' [VString p]] \<and>
      sb_OrderBys b = [''Price Desc''])"
proof -
  have pr: "\<exists>p. PaddedString (o_Price (dwo_Order (example_order t 0))) = Inr p" for t
    using PaddedString_small[of 100] by (simp add: example_order_def)
  obtain b1 where b1: "matchingOrdersBuilder example_deps (example_order OrderType_BID 0) = Inr b1"
    using pr matchingOrdersBuilder_returns by blast
  obtain b2 where b2: "matchingOrdersBuilder example_deps (example_order OrderType_ASK 0) = Inr b2"
    using pr matchingOrdersBuilder_returns by blast
  have t1: "o_OrderType (dwo_Order (example_order OrderType_BID 0)) = OrderType_BID"
    and t2: "o_OrderType (dwo_Order (example_order OrderType_ASK 0)) = OrderType_ASK"
    by (simp_all add: example_order_def)
  show ?thesis
    using GetMatchingOrders_type_status_price[OF b1] GetMatchingOrders_type_status_price[OF b2]
      b1 b2 t1 t2 by blast
qed



lemma selects_nth_holds:
  "selects b r \<Longrightarrow> n < length (sb_WhereParts b) \<Longrightarrow> holds (sb_WhereParts b ! n) r"
  by (simp add: selects_def list_all_length)





lemma length_matchingBenchmarksWhere [simp]:
  "length (sb_WhereParts (matchingBenchmarksWhere dp benchOp b i vs)) =
   length (sb_WhereParts b) + length vs"
  using matchingBenchmarksWhere_parts[of dp benchOp b i vs] by auto

lemma WhereParts_newNetflagsWhere_eq:
  "sb_WhereParts (newNetflagsWhere b operator v) =
   sb_WhereParts b @
     [Expr (if operator = CmpOp_GTE then ''Netflags | ~ ? = -1''
            else if operator = CmpOp_LTE then ''? | ~Netflags = -1'' else ''Netflags = ?'')
        [VUint64 v]]"
  by (simp add: newNetflagsWhere_def)

lemma nth_matchingBenchmarksWhere:
  "n < length (sb_WhereParts b) \<Longrightarrow>
   sb_WhereParts (matchingBenchmarksWhere dp benchOp b i vs) ! n = sb_WhereParts b ! n"
  using matchingBenchmarksWhere_parts[of dp benchOp b i vs] by (auto simp add: nth_append)

lemma selects_mem_holds: "selects b r \<Longrightarrow> p \<in> set (sb_WhereParts b) \<Longrightarrow> holds p r"
  by (simp add: selects_def list_all_iff del: holds.simps)

lemma matchingOrdersBuilder_counterparty:
  assumes "matchingOrdersBuilder dp order = Inr b"
  shows "(o_CounterpartyID (dwo_Order order) \<noteq> 0 \<longrightarrow>
            6 \<le> length (sb_WhereParts b) \<and>
            sb_WhereParts b ! 4 =
              Expr ''AuthorID = ?'' [VString (dep_Hex dp (o_CounterpartyID (dwo_Order order)))] \<and>
            sb_WhereParts b ! 5 =
              Eq ''CounterpartyID'' [dep_Hex dp 0, dep_Hex dp (o_AuthorID (dwo_Order order))])
       \<and> (o_CounterpartyID (dwo_Order order) = 0 \<longrightarrow>
            5 \<le> length (sb_WhereParts b) \<and>
            sb_WhereParts b ! 4 =
              Eq ''CounterpartyID'' [dep_Hex dp 0, dep_Hex dp (o_AuthorID (dwo_Order order))])"
proof (cases "PaddedString (o_Price (dwo_Order order))")
  case (Inl e)
  then show ?thesis using assms by (simp add: matchingOrdersBuilder_def Let_def bindE_def split: if_splits)
next
  case (Inr p)
  then show ?thesis using assms
    by (auto simp add: matchingOrdersBuilder_def Let_def bindE_def EthAddress_IsZero_def
        WhereParts_newNetflagsWhere_eq nth_matchingBenchmarksWhere
        split: if_splits)
qed

lemma holds_Eq_text:
  "holds (Eq col vals) r \<Longrightarrow> \<exists>s. r col = Some (VString s) \<and> s \<in> set vals"
proof -
  assume h: "holds (Eq col vals) r"
  then obtain cv where cv: "r col = Some cv" by (auto split: option.splits)
  with h obtain s where s: "as_text cv = Some s" and m: "s \<in> set vals"
    by (auto split: option.splits)
  from s have "cv = VString s" by (cases cv) simp_all
  then show ?thesis using cv m by blast
qed

lemma holds_author_eq:
  "holds (Expr ''AuthorID = ?'' [VString h]) r \<Longrightarrow> r ''AuthorID'' = Some (VString h)"
proof -
  have sw: "split_words ''AuthorID = ?'' = [''AuthorID'', ''='', ''?'']" by simp
  assume "holds (Expr ''AuthorID = ?'' [VString h]) r"
  then have "holds_expr [''AuthorID'', ''='', ''?''] [VString h] r"
    by (simp only: holds.simps sw)
  then obtain cv where cv: "r ''AuthorID'' = Some cv" and c: "compare_vals ''='' cv (VString h)"
    by (auto simp add: holds_expr_def split: option.splits)
  from c have "cv = VString h"
    by (cases cv) (auto simp add: compare_vals_def split: option.splits)
  then show ?thesis using cv by simp
qed

text \<open>
  Claim C4, as the code has it. If the reference order names a counterparty, the query
  restricts the author to that address. Whether or not it names one, the query
  restricts the counterparty field of the result to the zero address or the author of
  the reference order: the restriction comes fifth when no counterparty is named, and
  right after the one on the author otherwise.
\<close>

theorem GetMatchingOrders_counterparty:
  assumes "matchingOrdersBuilder dp order = Inr b"
  shows "(o_CounterpartyID (dwo_Order order) \<noteq> 0 \<longrightarrow>
            sb_WhereParts b ! 4 =
              Expr ''AuthorID = ?'' [VString (dep_Hex dp (o_CounterpartyID (dwo_Order order)))] \<and>
            sb_WhereParts b ! 5 =
              Eq ''CounterpartyID'' [dep_Hex dp 0, dep_Hex dp (o_AuthorID (dwo_Order order))])
       \<and> (o_CounterpartyID (dwo_Order order) = 0 \<longrightarrow>
            sb_WhereParts b ! 4 =
              Eq ''CounterpartyID'' [dep_Hex dp 0, dep_Hex dp (o_AuthorID (dwo_Order order))])
       \<and> Eq ''CounterpartyID'' [dep_Hex dp 0, dep_Hex dp (o_AuthorID (dwo_Order order))]
            \<in> set (sb_WhereParts b)
       \<and> (\<forall>r. selects b r \<longrightarrow>
            (\<exists>s. r ''CounterpartyID'' = Some (VString s) \<and>
                 (s = dep_Hex dp 0 \<or> s = dep_Hex dp (o_AuthorID (dwo_Order order)))) \<and>
            (o_CounterpartyID (dwo_Order order) \<noteq> 0 \<longrightarrow>
               r ''AuthorID'' = Some (VString (dep_Hex dp (o_CounterpartyID (dwo_Order order))))))"
proof -
  let ?W = "sb_WhereParts b"
  let ?eq = "Eq ''CounterpartyID'' [dep_Hex dp 0, dep_Hex dp (o_AuthorID (dwo_Order order))]"
  let ?au = "Expr ''AuthorID = ?'' [VString (dep_Hex dp (o_CounterpartyID (dwo_Order order)))]"
  note cp = matchingOrdersBuilder_counterparty[OF assms]
  have pos: "(o_CounterpartyID (dwo_Order order) \<noteq> 0 \<longrightarrow> ?W ! 4 = ?au \<and> ?W ! 5 = ?eq)
           \<and> (o_CounterpartyID (dwo_Order order) = 0 \<longrightarrow> ?W ! 4 = ?eq)"
    using cp by blast
  have mem: "?eq \<in> set ?W"
  proof (cases "o_CounterpartyID (dwo_Order order) = 0")
    case True
    then have "4 < length ?W" and "?W ! 4 = ?eq" using cp by auto
    then show ?thesis by (metis nth_mem)
  next
    case False
    then have "5 < length ?W" and "?W ! 5 = ?eq" using cp by auto
    then show ?thesis by (metis nth_mem)
  qed
  have sem: "(\<exists>s. r ''CounterpartyID'' = Some (VString s) \<and>
                 (s = dep_Hex dp 0 \<or> s = dep_Hex dp (o_AuthorID (dwo_Order order)))) \<and>
            (o_CounterpartyID (dwo_Order order) \<noteq> 0 \<longrightarrow>
               r ''AuthorID'' = Some (VString (dep_Hex dp (o_CounterpartyID (dwo_Order order)))))"
    if sel: "selects b r" for r
  proof -
    have "holds ?eq r" using sel mem by (rule selects_mem_holds)
    then have c1: "\<exists>s. r ''CounterpartyID'' = Some (VString s) \<and>
                 (s = dep_Hex dp 0 \<or> s = dep_Hex dp (o_AuthorID (dwo_Order order)))"
      using holds_Eq_text by fastforce
    have c2: "r ''AuthorID'' = Some (VString (dep_Hex dp (o_CounterpartyID (dwo_Order order))))"
      if nz: "o_CounterpartyID (dwo_Order order) \<noteq> 0"
    proof -
      have "4 < length ?W" and "?W ! 4 = ?au" using cp nz by auto
      then have "holds ?au r" using selects_nth_holds[OF sel, of 4] by simp
      then show ?thesis by (rule holds_author_eq)
    qed
    show ?thesis using c1 c2 by blast
  qed
  show ?thesis using pos mem sem by blast
qed

theorem GetMatchingOrders_counterparty_witness:
  "\<exists>b. matchingOrdersBuilder example_deps (example_order OrderType_BID 5) = Inr b
     \<and> o_CounterpartyID (dwo_Order (example_order OrderType_BID 5)) \<noteq> 0
     \<and> sb_WhereParts b ! 4 = Expr ''AuthorID = ?'' [VString (dep_Hex example_deps 5)]
     \<and> sb_WhereParts b ! 5 =
         Eq ''CounterpartyID'' [dep_Hex example_deps 0, dep_Hex example_deps 9]
     \<and> selects b (example_row ''0x9'')
     \<and> example_row ''0x9'' ''AuthorID'' = Some (VString (dep_Hex example_deps 5))"
proof -
  have pr: "\<exists>p. PaddedString (o_Price (dwo_Order (example_order OrderType_BID 5))) = Inr p"
    using PaddedString_small[of 100] by (simp add: example_order_def)
  obtain b where b: "matchingOrdersBuilder example_deps (example_order OrderType_BID 5) = Inr b"
    using pr matchingOrdersBuilder_returns by blast
  have nz: "o_CounterpartyID (dwo_Order (example_order OrderType_BID 5)) \<noteq> 0"
    and au: "o_AuthorID (dwo_Order (example_order OrderType_BID 5)) = 9"
    and cp: "o_CounterpartyID (dwo_Order (example_order OrderType_BID 5)) = 5"
    by (simp_all add: example_order_def)
  have "map_sum id (\<lambda>b. selects b (example_row ''0x9''))
          (matchingOrdersBuilder example_deps (example_order OrderType_BID 5)) = Inr True"
    by code_simp
  then have s: "selects b (example_row ''0x9'')" using b by simp
  show ?thesis
    using GetMatchingOrders_counterparty[OF b] b nz s unfolding au cp by blast
qed

text \<open>
  The claim as it was stated fails on a bid that names counterparty 5: the query still
  carries the restriction on the counterparty field, and a stored ask by author 5 that
  meets every other requirement, but whose own counterparty field is a third address, is
  not selected, while the same ask with an empty counterparty field is.
\<close>

theorem GetMatchingOrders_counterparty_counterexample:
  "o_CounterpartyID (dwo_Order (example_order OrderType_BID 5)) \<noteq> 0
   \<and> map_sum id ToSql (matchingOrdersBuilder example_deps (example_order OrderType_BID 5)) =
       Inr (''SELECT * FROM Orders WHERE Type = ? AND Status = ? AND Price <= ? AND Duration >= ? AND AuthorID = ? AND CounterpartyID IN (?,?) AND Netflags | ~ ? = -1 AND IdentityLevel >= ? AND CreatorIdentityLevel <= ? AND Benchmark0 >= ? ORDER BY Price Asc'',
            [VOrderType 2, VOrderStatus 2,
             VString ''00000000000000000000000000000000000000000000000000000000000000000000000000000100'',
             VUint64 3600, VString ''0x5'', VString ''0x0'', VString ''0x9'',
             VUint64 3, VIdentityLevel 1, VUint64 1, VUint64 10])
   \<and> example_row ''0x7'' ''AuthorID'' = Some (VString ''0x5'')
   \<and> map_sum id (\<lambda>b. selects b (example_row ''0x7''))
        (matchingOrdersBuilder example_deps (example_order OrderType_BID 5)) = Inr False
   \<and> map_sum id (\<lambda>b. selects b (example_row ''0x0''))
        (matchingOrdersBuilder example_deps (example_order OrderType_BID 5)) = Inr True"
  by code_simp

end
